theory Spec2Isabelle
  imports Complex_Main "HOL-Library.Multiset"
begin

section \<open>Values, exceptions and the outside world\<close>

text \<open>
  The script \<^verbatim>\<open>ml/binary_classification/decision_tree.py\<close> is glue around pandas,
  scikit-learn, optuna, numpy and joblib. Its own functions are embedded below one by
  one. Python floats are idealised as \<^typ>\<open>real\<close>; the one float that is not a
  number, NaN, is written \<^term>\<open>None :: real option\<close> where the libraries can
  produce it. A Python exception is a value of \<open>error\<close>; every computation that can
  raise returns \<open>error + 'a\<close> with \<open>Inl\<close> for the raise.
\<close>

datatype error = OSError | ValueError | KeyError | LibraryError

text \<open>
  Dynamically typed Python values as they occur in hyperparameters and table cells; a
  float is a number or NaN.
\<close>

datatype pval = PInt int | PFloat real | PNaN | PStr string | PNone

fun pfloat :: "real option \<Rightarrow> pval" where
  "pfloat (Some x) = PFloat x"
| "pfloat None = PNaN"

text \<open>
  A pandas DataFrame of features: the column names and the rows. The target column is a
  binary label (failure / no failure): \<open>True\<close> is the label \<open>1\<close>, the positive class
  of scikit-learn's binary scores, and \<open>False\<close> is the label \<open>0\<close>.
\<close>

record frame =
  columns :: "string list"
  rows :: "real list list"

subsection \<open>Estimators and pipelines\<close>

record tree_args =
  max_depth :: pval
  min_samples_split :: pval
  min_samples_leaf :: pval
  class_weight :: pval

datatype estimator = StandardScaler | DecisionTreeClassifier tree_args

type_synonym pipeline = "estimator list"

definition make_pipeline :: "estimator list \<Rightarrow> pipeline" where
  "make_pipeline steps = steps"

text \<open>
  A fitted pipeline, as far as the script looks at it: the steps it was built from, the
  attribute \<^verbatim>\<open>named_steps["decisiontreeclassifier"].feature_importances_\<close>, and
  \<^verbatim>\<open>predict\<close>.
\<close>

record fitted_model =
  fitted_steps :: pipeline
  tree_feature_importances :: "real list"
  predict :: "frame \<Rightarrow> error + bool list"

subsection \<open>Scorers\<close>

datatype score_func = PrecisionScore | RecallScore | FbetaScore

record scorer =
  score_func :: score_func
  kw_beta :: real

definition make_scorer :: "score_func \<Rightarrow> real \<Rightarrow> scorer" where
  "make_scorer f b = \<lparr>score_func = f, kw_beta = b\<rparr>"

subsection \<open>Trials and studies of the hyperparameter search\<close>

text \<open>
  An optuna trial hands out one value per \<^verbatim>\<open>suggest_*\<close> call and remembers it under
  the parameter's name. Which value it hands out is the sampler's business: the three
  \<open>draw\<close> fields are the sampler's choices for this trial.
\<close>

record trial =
  draw_int :: "string \<Rightarrow> int \<Rightarrow> int \<Rightarrow> int"
  draw_float :: "string \<Rightarrow> real \<Rightarrow> real \<Rightarrow> real"
  draw_categorical :: "string \<Rightarrow> pval list \<Rightarrow> pval"
  params :: "string \<Rightarrow> pval option"

record frozen_trial =
  ft_params :: "string \<Rightarrow> pval option"
  ft_value :: "real option"

datatype direction = Minimize | Maximize

record study =
  direction :: direction
  trials :: "frozen_trial list"

subsection \<open>Files and the trace of a run\<close>

text \<open>
  What a file holds: a table written by \<^verbatim>\<open>to_csv\<close> (header and rows), the grid
  written by \<^verbatim>\<open>np.savetxt\<close>, or a pipeline serialized by \<^verbatim>\<open>joblib.dump\<close>. The
  world is the file system as far as the script touches it, together with the trace of
  what the run did to its surroundings: the files it wrote, the searches and
  cross-validations it asked the libraries for (with their configuration), and what it
  printed.
\<close>

datatype content =
    Csv "string list" "pval list list"
  | Matrix "nat list list"
  | Joblib fitted_model

datatype event =
    Wrote string content
  | Optimize direction nat
  | CrossValScore nat scorer
  | Printed string "real option" "string \<Rightarrow> pval option"

record world =
  writable :: "string \<Rightarrow> bool"
  files :: "string \<Rightarrow> content option"
  trace :: "event list"

text \<open>
  The libraries the script calls but does not define. Everything whose result the
  script cannot determine is a field: reading the CSV file, the four dataset creators of
  the module \<^verbatim>\<open>experiment_dataset_creators\<close> (each returns
  \<^verbatim>\<open>X_train, X_test, y_train, y_test\<close>), the sampler of the search (its choice may
  depend on the trials so far and on a random state nobody seeds), the splitter of the
  cross-validation, fitting a pipeline (again with an unseeded random state), and the three
  scores the claims say nothing about (each may raise, and may come out as NaN, written
  \<open>None\<close>).
\<close>

type_synonym dataset = "frame \<times> frame \<times> bool list \<times> bool list"

type_synonym fold = "(frame \<times> bool list) \<times> (frame \<times> bool list)"

record lib =
  read_csv :: "string \<Rightarrow> error + frame"
  create_experiment1_dataset :: "frame \<Rightarrow> error + dataset"
  create_experiment2_dataset :: "frame \<Rightarrow> error + dataset"
  create_experiment3_dataset :: "frame \<Rightarrow> error + dataset"
  create_experiment4_dataset :: "frame \<Rightarrow> error + dataset"
  sampler :: "frozen_trial list \<Rightarrow> trial"
  kfold :: "nat \<Rightarrow> frame \<Rightarrow> bool list \<Rightarrow> error + fold list"
  fit :: "pipeline \<Rightarrow> frame \<Rightarrow> bool list \<Rightarrow> error + fitted_model"
  cohen_kappa_score :: "bool list \<Rightarrow> bool list \<Rightarrow> error + real option"
  balanced_accuracy_score :: "bool list \<Rightarrow> bool list \<Rightarrow> error + real option"
  average_precision_score :: "bool list \<Rightarrow> bool list \<Rightarrow> error + real option"

section \<open>Computations that write files and may raise\<close>

text \<open>
  A computation takes the world and returns its result, or the exception it raised, with
  the world as it left it: what was written before a raise stays written.
\<close>

type_synonym 'a io = "world \<Rightarrow> (error + 'a) \<times> world"

definition io_return :: "'a \<Rightarrow> 'a io" where
  "io_return a = (\<lambda>w. (Inr a, w))"

definition io_lift :: "error + 'a \<Rightarrow> 'a io" where
  "io_lift r = (\<lambda>w. (r, w))"

definition io_bind :: "'a io \<Rightarrow> ('a \<Rightarrow> 'b io) \<Rightarrow> 'b io" where
  "io_bind m f = (\<lambda>w. case m w of (Inl e, w') \<Rightarrow> (Inl e, w') | (Inr a, w') \<Rightarrow> f a w')"

definition emit :: "event \<Rightarrow> unit io" where
  "emit ev = (\<lambda>w. (Inr (), w\<lparr>trace := trace w @ [ev]\<rparr>))"

text \<open>
  Opening a path for writing fails with \<open>OSError\<close> where the path is not writable
  (the script creates no directory); otherwise the file is created or overwritten.
\<close>

definition wrote :: "string \<Rightarrow> content \<Rightarrow> world \<Rightarrow> world" where
  "wrote path c w = w\<lparr>files := (files w)(path \<mapsto> c), trace := trace w @ [Wrote path c]\<rparr>"

definition write_file :: "string \<Rightarrow> content \<Rightarrow> unit io" where
  "write_file path c = (\<lambda>w. if writable w path then (Inr (), wrote path c w) else (Inl OSError, w))"

text \<open>\<^verbatim>\<open>DataFrame.to_csv(path, index=False)\<close>, \<^verbatim>\<open>np.savetxt\<close> and \<^verbatim>\<open>joblib.dump\<close>.\<close>

definition to_csv :: "string list \<times> pval list list \<Rightarrow> string \<Rightarrow> unit io" where
  "to_csv df path = write_file path (Csv (fst df) (snd df))"

definition savetxt :: "string \<Rightarrow> nat list list \<Rightarrow> unit io" where
  "savetxt filename cm = write_file filename (Matrix cm)"

definition dump :: "fitted_model \<Rightarrow> string \<Rightarrow> unit io" where
  "dump model filename = write_file filename (Joblib model)"

text \<open>What a stretch of trace wrote, in order, and the files after it.\<close>

fun writes :: "event list \<Rightarrow> (string \<times> content) list" where
  "writes [] = []"
| "writes (Wrote p c # evs) = (p, c) # writes evs"
| "writes (_ # evs) = writes evs"

definition apply_writes ::
    "(string \<times> content) list \<Rightarrow> (string \<Rightarrow> content option) \<Rightarrow> (string \<Rightarrow> content option)" where
  "apply_writes ws fs = foldl (\<lambda>m pc. m(fst pc \<mapsto> snd pc)) fs ws"

text \<open>
  \<open>extends w evs w'\<close>: the world \<open>w'\<close> is \<open>w\<close> after the events \<open>evs\<close> and
  nothing else. \<open>io_spec m Q\<close>: whatever the world, \<open>m\<close> only appends events to
  the trace and writes what they say, and its result and events satisfy \<open>Q\<close>.
\<close>

definition extends :: "world \<Rightarrow> event list \<Rightarrow> world \<Rightarrow> bool" where
  "extends w evs w' \<longleftrightarrow>
     writable w' = writable w \<and> trace w' = trace w @ evs
     \<and> files w' = apply_writes (writes evs) (files w)"

definition io_spec :: "'a io \<Rightarrow> (error + 'a \<Rightarrow> event list \<Rightarrow> bool) \<Rightarrow> bool" where
  "io_spec m Q \<longleftrightarrow> (\<forall>w r w'. m w = (r, w') \<longrightarrow> (\<exists>evs. extends w evs w' \<and> Q r evs))"

section \<open>The scores of scikit-learn the claims are about\<close>

text \<open>
  Modelled from the spec: \<^verbatim>\<open>precision_score\<close>, \<^verbatim>\<open>recall_score\<close>,
  \<^verbatim>\<open>fbeta_score\<close> and \<^verbatim>\<open>confusion_matrix\<close> are imported from scikit-learn; their
  bodies are not part of the repository. The spec's glossary calls the F-beta score the weighted
  harmonic mean of precision and recall and the confusion matrix a grid of
  predicted-versus-actual label counts; the definitions follow the library's documented
  behaviour for binary labels with positive label 1: inputs of different lengths raise
  \<open>ValueError\<close>, a score whose denominator is zero is \<open>0.0\<close> (with a warning), a
  negative \<open>beta\<close> raises \<open>ValueError\<close>, and the grid has one row and one column per
  label that occurs in either vector, in sorted order.
\<close>

definition prf_divide :: "nat \<Rightarrow> nat \<Rightarrow> real" where
  "prf_divide n d = (if d = 0 then 0 else real n / real d)"

definition tp :: "bool list \<Rightarrow> bool list \<Rightarrow> nat" where
  "tp y_true y_pred = count_list (zip y_true y_pred) (True, True)"

definition fp :: "bool list \<Rightarrow> bool list \<Rightarrow> nat" where
  "fp y_true y_pred = count_list (zip y_true y_pred) (False, True)"

definition fn :: "bool list \<Rightarrow> bool list \<Rightarrow> nat" where
  "fn y_true y_pred = count_list (zip y_true y_pred) (True, False)"

text \<open>
  Modelled from the spec: scikit-learn's \<^verbatim>\<open>precision_score\<close>, true positives over
  predicted positives.
\<close>

definition precision_score :: "bool list \<Rightarrow> bool list \<Rightarrow> error + real" where
  "precision_score y_true y_pred =
     (if length y_true \<noteq> length y_pred then Inl ValueError
      else Inr (prf_divide (tp y_true y_pred) (tp y_true y_pred + fp y_true y_pred)))"

text \<open>
  Modelled from the spec: scikit-learn's \<^verbatim>\<open>recall_score\<close>, true positives over actual
  positives.
\<close>

definition recall_score :: "bool list \<Rightarrow> bool list \<Rightarrow> error + real" where
  "recall_score y_true y_pred =
     (if length y_true \<noteq> length y_pred then Inl ValueError
      else Inr (prf_divide (tp y_true y_pred) (tp y_true y_pred + fn y_true y_pred)))"

text \<open>
  Modelled from the spec: scikit-learn's \<^verbatim>\<open>fbeta_score\<close>, the weighted harmonic mean
  of precision and recall, \<open>beta\<close> weighting recall.
\<close>

definition fbeta_score :: "bool list \<Rightarrow> bool list \<Rightarrow> real \<Rightarrow> error + real" where
  "fbeta_score y_true y_pred beta =
     (if length y_true \<noteq> length y_pred \<or> beta < 0 then Inl ValueError
      else let p = prf_divide (tp y_true y_pred) (tp y_true y_pred + fp y_true y_pred);
               r = prf_divide (tp y_true y_pred) (tp y_true y_pred + fn y_true y_pred);
               denom = beta\<^sup>2 * p + r
           in Inr (if denom = 0 then 0 else (1 + beta\<^sup>2) * p * r / denom))"

text \<open>
  Modelled from the spec: scikit-learn's \<^verbatim>\<open>confusion_matrix\<close>, the grid of
  actual-versus-predicted label counts, rows the actual label, columns the predicted one.
\<close>

definition confusion_matrix :: "'a::linorder list \<Rightarrow> 'a list \<Rightarrow> error + nat list list" where
  "confusion_matrix y_true y_pred =
     (if length y_true \<noteq> length y_pred then Inl ValueError
      else let labels = sort (remdups (y_true @ y_pred))
           in Inr (map (\<lambda>t. map (\<lambda>p. count_list (zip y_true y_pred) (t, p)) labels) labels))"

text \<open>Calling a scorer made by \<^verbatim>\<open>make_scorer\<close>: predict, then score against the truth.\<close>

definition apply_scorer :: "scorer \<Rightarrow> fitted_model \<Rightarrow> frame \<Rightarrow> bool list \<Rightarrow> error + real" where
  "apply_scorer s model X y =
     (case predict model X of
        Inl e \<Rightarrow> Inl e
      | Inr y_pred \<Rightarrow>
          (case score_func s of
             PrecisionScore \<Rightarrow> precision_score y y_pred
           | RecallScore \<Rightarrow> recall_score y y_pred
           | FbetaScore \<Rightarrow> fbeta_score y y_pred (kw_beta s)))"

section \<open>Cross-validation and the search, as the libraries document them\<close>

text \<open>
  Modelled from the spec: \<^verbatim>\<open>cross_val_score\<close> (scikit-learn) and
  \<^verbatim>\<open>Study.optimize\<close>, \<^verbatim>\<open>Study.best_trial\<close> (optuna) are imported; their bodies
  are not part of the repository. The spec says of them: sample a candidate, fit the pipeline under 5-fold
  cross-validation, score with an F-beta metric, keep the best-scoring trial. The
  definitions follow the libraries' documented defaults. \<^verbatim>\<open>cross_val_score\<close> takes
  the folds from the splitter, fits a fresh copy of the estimator on each training part
  and scores it on the test part; with the default \<^verbatim>\<open>error_score=nan\<close> a fit or a
  scoring that raises gives the score NaN, and \<open>ValueError\<close> is raised when every fit
  failed. \<^verbatim>\<open>optimize\<close> runs the trials one after the other; an exception of the
  objective is not caught (\<^verbatim>\<open>catch=()\<close>); a trial whose value is NaN is recorded as
  failed. \<^verbatim>\<open>best_trial\<close> is the first completed trial whose value no other completed
  trial beats in the study's direction, and raises \<open>ValueError\<close> when no trial
  completed.
\<close>

definition fit_and_score :: "lib \<Rightarrow> pipeline \<Rightarrow> scorer \<Rightarrow> fold \<Rightarrow> bool \<times> real option" where
  "fit_and_score L estimator scoring f =
     (case fit L estimator (fst (fst f)) (snd (fst f)) of
        Inl e \<Rightarrow> (False, None)
      | Inr model \<Rightarrow>
          (case apply_scorer scoring model (fst (snd f)) (snd (snd f)) of
             Inl e \<Rightarrow> (True, None)
           | Inr s \<Rightarrow> (True, Some s)))"

text \<open>
  Modelled from the spec: scikit-learn's \<^verbatim>\<open>cross_val_score\<close>. The call is recorded in
  the trace with its \<open>cv\<close> and its scorer.
\<close>

definition cross_val_score ::
    "lib \<Rightarrow> pipeline \<Rightarrow> frame \<Rightarrow> bool list \<Rightarrow> nat \<Rightarrow> scorer \<Rightarrow> real option list io" where
  "cross_val_score L estimator X y cv scoring =
     io_bind (emit (CrossValScore cv scoring)) (\<lambda>_.
       io_lift
         (case kfold L cv X y of
            Inl e \<Rightarrow> Inl e
          | Inr folds \<Rightarrow>
              (let results = map (fit_and_score L estimator scoring) folds
               in if folds \<noteq> [] \<and> list_all (\<lambda>r. \<not> fst r) results then Inl ValueError
                  else Inr (map snd results))))"

text \<open>\<^verbatim>\<open>ndarray.mean()\<close>: NaN as soon as one entry is NaN, and for no entries at all.\<close>

definition np_mean :: "real option list \<Rightarrow> real option" where
  "np_mean xs =
     (case those xs of
        None \<Rightarrow> None
      | Some vs \<Rightarrow> if vs = [] then None else Some (sum_list vs / real (length vs)))"

definition suggest_int :: "trial \<Rightarrow> string \<Rightarrow> int \<Rightarrow> int \<Rightarrow> int \<times> trial" where
  "suggest_int t name low high =
     (let v = draw_int t name low high in (v, t\<lparr>params := (params t)(name \<mapsto> PInt v)\<rparr>))"

definition suggest_float :: "trial \<Rightarrow> string \<Rightarrow> real \<Rightarrow> real \<Rightarrow> real \<times> trial" where
  "suggest_float t name low high =
     (let v = draw_float t name low high in (v, t\<lparr>params := (params t)(name \<mapsto> PFloat v)\<rparr>))"

definition suggest_categorical :: "trial \<Rightarrow> string \<Rightarrow> pval list \<Rightarrow> pval \<times> trial" where
  "suggest_categorical t name choices =
     (let v = draw_categorical t name choices in (v, t\<lparr>params := (params t)(name \<mapsto> v)\<rparr>))"

definition create_study :: "direction \<Rightarrow> study" where
  "create_study d = \<lparr>direction = d, trials = []\<rparr>"

definition ask :: "lib \<Rightarrow> frozen_trial list \<Rightarrow> trial" where
  "ask L ts = (sampler L ts)\<lparr>params := Map.empty\<rparr>"

text \<open>
  Modelled from the spec: optuna's \<^verbatim>\<open>Study.optimize\<close>, trial after trial; the call is
  recorded in the trace with the study's direction and \<open>n_trials\<close>.
\<close>

fun run_trials ::
    "lib \<Rightarrow> (trial \<Rightarrow> (real option \<times> trial) io) \<Rightarrow> nat \<Rightarrow> frozen_trial list \<Rightarrow> frozen_trial list io" where
  "run_trials L func 0 ts = io_return ts"
| "run_trials L func (Suc n) ts =
     io_bind (func (ask L ts)) (\<lambda>r.
       run_trials L func n (ts @ [\<lparr>ft_params = params (snd r), ft_value = fst r\<rparr>]))"

definition optimize :: "lib \<Rightarrow> study \<Rightarrow> (trial \<Rightarrow> (real option \<times> trial) io) \<Rightarrow> nat \<Rightarrow> study io" where
  "optimize L s func n_trials =
     io_bind (emit (Optimize (direction s) n_trials)) (\<lambda>_.
     io_bind (run_trials L func n_trials (trials s)) (\<lambda>ts.
       io_return (s\<lparr>trials := ts\<rparr>)))"

fun better :: "direction \<Rightarrow> real option \<Rightarrow> real option \<Rightarrow> bool" where
  "better Maximize (Some new) (Some old) = (old < new)"
| "better Minimize (Some new) (Some old) = (new < old)"
| "better _ _ _ = False"

text \<open>Modelled from the spec: optuna's \<^verbatim>\<open>Study.best_trial\<close>.\<close>

definition best_trial :: "study \<Rightarrow> error + frozen_trial" where
  "best_trial s =
     (case filter (\<lambda>t. ft_value t \<noteq> None) (trials s) of
        [] \<Rightarrow> Inl ValueError
      | t # ts \<Rightarrow>
          Inr (foldl (\<lambda>b c. if better (direction s) (ft_value c) (ft_value b) then c else b) t ts))"

definition getitem :: "(string \<Rightarrow> pval option) \<Rightarrow> string \<Rightarrow> error + pval" where
  "getitem d k = (case d k of None \<Rightarrow> Inl KeyError | Some v \<Rightarrow> Inr v)"

section \<open>The functions of the script\<close>

text \<open>
  Each function of \<^verbatim>\<open>decision_tree.py\<close> under its own name, statement by statement.
  A call that can raise is bound with \<open>io_bind\<close>, so that the first exception ends the
  function with the world as it is at that moment; the script has no \<^verbatim>\<open>try\<close>.
\<close>

definition load_data :: "lib \<Rightarrow> string \<Rightarrow> frame io" where
  "load_data L filepath = io_lift (read_csv L filepath)"

definition save_model :: "fitted_model \<Rightarrow> string \<Rightarrow> unit io" where
  "save_model model filename = dump model filename"

text \<open>
  The trial is asked for its four values in the order of the source, each with the bounds
  written there; the score is the mean of what \<^verbatim>\<open>cross_val_score\<close> returns for
  \<^verbatim>\<open>cv=5\<close> and \<^verbatim>\<open>make_scorer(fbeta_score, beta=beta)\<close>. The trial comes back with
  the values it has registered, as optuna keeps them in the trial object.
\<close>

definition objective ::
    "lib \<Rightarrow> trial \<Rightarrow> frame \<Rightarrow> bool list \<Rightarrow> real \<Rightarrow> (real option \<times> trial) io" where
  "objective L trial0 X y beta =
     (let (max_depth_v, t1) = suggest_int trial0 ''max_depth'' 1 50;
          (min_samples_split_v, t2) = suggest_float t1 ''min_samples_split'' 0.001 1;
          (min_samples_leaf_v, t3) = suggest_float t2 ''min_samples_leaf'' 0.001 0.5;
          (class_weight_v, t4) = suggest_categorical t3 ''class_weight'' [PNone, PStr ''balanced''];
          model = make_pipeline
            [StandardScaler,
             DecisionTreeClassifier
               \<lparr>max_depth = PInt max_depth_v,
                min_samples_split = PFloat min_samples_split_v,
                min_samples_leaf = PFloat min_samples_leaf_v,
                class_weight = class_weight_v\<rparr>]
      in io_bind (cross_val_score L model X y 5 (make_scorer FbetaScore beta)) (\<lambda>scores.
           io_return (np_mean scores, t4)))"

definition compute_and_save_metrics ::
    "lib \<Rightarrow> bool list \<Rightarrow> bool list \<Rightarrow> real \<Rightarrow> string \<Rightarrow> unit io" where
  "compute_and_save_metrics L y_true y_pred beta save_path =
     io_bind (io_lift (precision_score y_true y_pred)) (\<lambda>precision.
     io_bind (io_lift (recall_score y_true y_pred)) (\<lambda>recall.
     io_bind (io_lift (fbeta_score y_true y_pred beta)) (\<lambda>fbeta.
     io_bind (io_lift (cohen_kappa_score L y_true y_pred)) (\<lambda>kappa.
     io_bind (io_lift (balanced_accuracy_score L y_true y_pred)) (\<lambda>balanced_accuracy.
     io_bind (io_lift (average_precision_score L y_true y_pred)) (\<lambda>average_precision.
       to_csv
         ([''Precision'', ''Recall'', ''Fbeta Score'', ''Cohen Kappa'', ''Balanced Accuracy'',
           ''Average Precision''],
          [[PFloat precision, PFloat recall, PFloat fbeta, pfloat kappa,
            pfloat balanced_accuracy, pfloat average_precision]])
         save_path))))))"

text \<open>
  \<^verbatim>\<open>pd.DataFrame({"Feature": ..., "Importance": ...})\<close> raises \<open>ValueError\<close> for
  columns of different lengths. \<^verbatim>\<open>sort_values("Importance", ascending=False)\<close> is
  a sort by the negated importance; on equal importances pandas promises no order, and
  the model keeps the given one.
\<close>

definition calculate_and_save_feature_importances ::
    "fitted_model \<Rightarrow> string list \<Rightarrow> string \<Rightarrow> unit io" where
  "calculate_and_save_feature_importances model feature_names save_path =
     (let importances = tree_feature_importances model
      in if length feature_names \<noteq> length importances then io_lift (Inl ValueError)
         else let feature_importances = sort_key (\<lambda>r. - snd r) (zip feature_names importances)
              in to_csv
                   ([''Feature'', ''Importance''],
                    map (\<lambda>r. [PStr (fst r), PFloat (snd r)]) feature_importances)
                   save_path)"

definition save_confusion_matrix :: "'a::linorder list \<Rightarrow> 'a list \<Rightarrow> string \<Rightarrow> unit io" where
  "save_confusion_matrix y_true y_pred filename =
     io_bind (io_lift (confusion_matrix y_true y_pred)) (\<lambda>cm. savetxt filename cm)"

text \<open>
  The \<^verbatim>\<open>print\<close> of the best trial is the event \<open>Printed\<close> with the text of the
  f-string before the value, the value and the parameters. \<^verbatim>\<open>best_params[...]\<close> is a
  dictionary lookup and raises \<open>KeyError\<close> on a missing key.
\<close>

definition decision_tree_experiment ::
    "lib \<Rightarrow> frame \<Rightarrow> bool list \<Rightarrow> frame \<Rightarrow> bool list \<Rightarrow> real \<Rightarrow> string \<Rightarrow> string \<Rightarrow> string
     \<Rightarrow> unit io" where
  "decision_tree_experiment L X_train y_train X_test y_test beta experiment_dictionary
       model_directory experiment_number =
     io_bind (optimize L (create_study Maximize) (\<lambda>t. objective L t X_train y_train beta) 100)
       (\<lambda>study.
     io_bind (io_lift (best_trial study)) (\<lambda>best.
     io_bind (emit (Printed ''Best trial recall: '' (ft_value best) (ft_params best))) (\<lambda>_.
     io_bind (io_lift (getitem (ft_params best) ''max_depth'')) (\<lambda>b_max_depth.
     io_bind (io_lift (getitem (ft_params best) ''min_samples_split'')) (\<lambda>b_min_samples_split.
     io_bind (io_lift (getitem (ft_params best) ''min_samples_leaf'')) (\<lambda>b_min_samples_leaf.
     io_bind (io_lift (getitem (ft_params best) ''class_weight'')) (\<lambda>b_class_weight.
     io_bind
       (to_csv
          ([''max_depth'', ''min_samples_split'', ''min_samples_leaf'', ''class_weight''],
           [[b_max_depth, b_min_samples_split, b_min_samples_leaf, b_class_weight]])
          (''results/'' @ experiment_dictionary @ ''/hyperparameters.csv'')) (\<lambda>_.
     io_bind
       (io_lift
          (fit L
             (make_pipeline
                [StandardScaler,
                 DecisionTreeClassifier
                   \<lparr>max_depth = b_max_depth,
                    min_samples_split = b_min_samples_split,
                    min_samples_leaf = b_min_samples_leaf,
                    class_weight = b_class_weight\<rparr>])
             X_train y_train)) (\<lambda>model.
     io_bind (io_lift (predict model X_test)) (\<lambda>y_pred.
     io_bind
       (compute_and_save_metrics L y_test y_pred beta
          (''results/'' @ experiment_dictionary @ ''/metrics.csv'')) (\<lambda>_.
     io_bind
       (calculate_and_save_feature_importances model (columns X_train)
          (''results/'' @ experiment_dictionary @ ''/feature_importances.csv'')) (\<lambda>_.
     io_bind
       (save_confusion_matrix y_test y_pred
          (''results/'' @ experiment_dictionary @ ''/confusion_matrix.txt'')) (\<lambda>_.
       save_model model
         (''models/'' @ model_directory @ ''/'' @ experiment_number @ ''.joblib''))))))))))))))"

text \<open>
  Each creator returns \<^verbatim>\<open>X_train, X_test, y_train, y_test\<close>; the experiments take them
  as \<^verbatim>\<open>X_train, y_train, X_test, y_test\<close>, with \<^verbatim>\<open>beta=2\<close> and their own names.
\<close>

definition run_decision_tree :: "lib \<Rightarrow> string \<Rightarrow> unit io" where
  "run_decision_tree L filepath =
     io_bind (load_data L filepath) (\<lambda>df.
     io_bind (io_lift (create_experiment1_dataset L df)) (\<lambda>(X1_train, X1_test, y1_train, y1_test).
     io_bind (io_lift (create_experiment2_dataset L df)) (\<lambda>(X2_train, X2_test, y2_train, y2_test).
     io_bind (io_lift (create_experiment3_dataset L df)) (\<lambda>(X3_train, X3_test, y3_train, y3_test).
     io_bind (io_lift (create_experiment4_dataset L df)) (\<lambda>(X4_train, X4_test, y4_train, y4_test).
     io_bind
       (decision_tree_experiment L X1_train y1_train X1_test y1_test 2
          ''decision_tree_experiment1'' ''decision_tree'' ''1'') (\<lambda>_.
     io_bind
       (decision_tree_experiment L X2_train y2_train X2_test y2_test 2
          ''decision_tree_experiment2'' ''decision_tree'' ''2'') (\<lambda>_.
     io_bind
       (decision_tree_experiment L X3_train y3_train X3_test y3_test 2
          ''decision_tree_experiment3'' ''decision_tree'' ''3'') (\<lambda>_.
       decision_tree_experiment L X4_train y4_train X4_test y4_test 2
         ''decision_tree_experiment4'' ''decision_tree'' ''4''))))))))"

text \<open>The five files of one experiment, in the order in which they are written.\<close>

definition artifact_paths :: "string \<Rightarrow> string \<Rightarrow> string \<Rightarrow> string list" where
  "artifact_paths experiment_dictionary model_directory experiment_number =
     [''results/'' @ experiment_dictionary @ ''/hyperparameters.csv'',
      ''results/'' @ experiment_dictionary @ ''/metrics.csv'',
      ''results/'' @ experiment_dictionary @ ''/feature_importances.csv'',
      ''results/'' @ experiment_dictionary @ ''/confusion_matrix.txt'',
      ''models/'' @ model_directory @ ''/'' @ experiment_number @ ''.joblib'']"

section \<open>Notions the claims are stated with\<close>

text \<open>The column names of the two one-row tables of an experiment.\<close>

definition metrics_names :: "string list" where
  "metrics_names =
     [''Precision'', ''Recall'', ''Fbeta Score'', ''Cohen Kappa'', ''Balanced Accuracy'',
      ''Average Precision'']"

definition hyperparameter_names :: "string list" where
  "hyperparameter_names = [''max_depth'', ''min_samples_split'', ''min_samples_leaf'', ''class_weight'']"

text \<open>
  What \<open>objective\<close> makes of a trial: the parameters the trial has registered once it
  was asked for its four values, and the pipeline built from them. Both are read off the
  body of \<open>objective\<close> and shown to agree with it in \<open>objective_unfold\<close>.
\<close>

definition suggested :: "trial \<Rightarrow> string \<Rightarrow> pval option" where
  "suggested t =
     (params t)
       (''max_depth'' \<mapsto> PInt (draw_int t ''max_depth'' 1 50),
        ''min_samples_split'' \<mapsto> PFloat (draw_float t ''min_samples_split'' 0.001 1),
        ''min_samples_leaf'' \<mapsto> PFloat (draw_float t ''min_samples_leaf'' 0.001 0.5),
        ''class_weight'' \<mapsto> draw_categorical t ''class_weight'' [PNone, PStr ''balanced''])"

definition candidate :: "trial \<Rightarrow> pipeline" where
  "candidate t =
     make_pipeline
       [StandardScaler,
        DecisionTreeClassifier
          \<lparr>max_depth = PInt (draw_int t ''max_depth'' 1 50),
           min_samples_split = PFloat (draw_float t ''min_samples_split'' 0.001 1),
           min_samples_leaf = PFloat (draw_float t ''min_samples_leaf'' 0.001 0.5),
           class_weight = draw_categorical t ''class_weight'' [PNone, PStr ''balanced'']\<rparr>]"

text \<open>
  Modelled from the spec: the \<^verbatim>\<open>suggest_*\<close> methods of an optuna trial are not part
  of the repository. What a sampler may hand out is the library's contract: a value of
  \<^verbatim>\<open>suggest_int\<close> or \<^verbatim>\<open>suggest_float\<close> lies between the bounds it was asked for,
  and a value of \<^verbatim>\<open>suggest_categorical\<close> is one of the choices.
\<close>

definition respects_ranges :: "trial \<Rightarrow> bool" where
  "respects_ranges t \<longleftrightarrow>
     (\<forall>name low high. low \<le> high \<longrightarrow>
        low \<le> draw_int t name low high \<and> draw_int t name low high \<le> high)
     \<and> (\<forall>name low high. low \<le> high \<longrightarrow>
        low \<le> draw_float t name low high \<and> draw_float t name low high \<le> high)
     \<and> (\<forall>name choices. choices \<noteq> [] \<longrightarrow> draw_categorical t name choices \<in> set choices)"

text \<open>The search space of the script, as a test on a trial's registered parameters.\<close>

definition in_search_space :: "(string \<Rightarrow> pval option) \<Rightarrow> bool" where
  "in_search_space ps \<longleftrightarrow>
     (case ps ''max_depth'' of Some (PInt k) \<Rightarrow> 1 \<le> k \<and> k \<le> 50 | _ \<Rightarrow> False)
     \<and> (case ps ''min_samples_split'' of Some (PFloat x) \<Rightarrow> 0.001 \<le> x \<and> x \<le> 1 | _ \<Rightarrow> False)
     \<and> (case ps ''min_samples_leaf'' of Some (PFloat x) \<Rightarrow> 0.001 \<le> x \<and> x \<le> 0.5 | _ \<Rightarrow> False)
     \<and> (case ps ''class_weight'' of
           Some PNone \<Rightarrow> True | Some (PStr s) \<Rightarrow> s = ''balanced'' | _ \<Rightarrow> False)"

text \<open>
  The spec's words for the search objective: the F-beta score, with the given \<open>beta\<close>,
  of the pipeline fitted on the training part of a fold and scored on its test part
  (NaN where the fit or the scoring fails), and its mean over the folds.
\<close>

definition fold_fbeta :: "lib \<Rightarrow> pipeline \<Rightarrow> real \<Rightarrow> fold \<Rightarrow> real option" where
  "fold_fbeta L estimator beta f =
     (case fit L estimator (fst (fst f)) (snd (fst f)) of
        Inl e \<Rightarrow> None
      | Inr model \<Rightarrow>
          (case predict model (fst (snd f)) of
             Inl e \<Rightarrow> None
           | Inr y_pred \<Rightarrow>
               (case fbeta_score (snd (snd f)) y_pred beta of Inl e \<Rightarrow> None | Inr s \<Rightarrow> Some s)))"

definition mean_fold_fbeta :: "lib \<Rightarrow> pipeline \<Rightarrow> real \<Rightarrow> fold list \<Rightarrow> real option" where
  "mean_fold_fbeta L estimator beta folds = np_mean (map (fold_fbeta L estimator beta) folds)"

text \<open>
  The events of a trace that show how a search was configured, and the events one
  complete search of the script leaves: the call of \<^verbatim>\<open>optimize\<close> and one call of
  \<^verbatim>\<open>cross_val_score\<close> per trial.
\<close>

fun is_search :: "event \<Rightarrow> bool" where
  "is_search (Optimize d n) = True"
| "is_search (CrossValScore cv sc) = True"
| "is_search _ = False"

fun configured :: "real \<Rightarrow> event \<Rightarrow> bool" where
  "configured beta (Optimize d n) \<longleftrightarrow> d = Maximize \<and> n = 100"
| "configured beta (CrossValScore cv sc) \<longleftrightarrow> cv = 5 \<and> sc = make_scorer FbetaScore beta"
| "configured beta _ \<longleftrightarrow> True"

definition one_search :: "real \<Rightarrow> event list" where
  "one_search beta =
     Optimize Maximize 100 # replicate 100 (CrossValScore 5 (make_scorer FbetaScore beta))"

text \<open>
  The call of \<open>decision_tree_experiment\<close> that \<open>run_decision_tree\<close> makes for the
  dataset \<open>ds\<close> as experiment \<open>number\<close>, and the five paths of that experiment.
  \<open>kept number wa wb\<close>: the artifacts of the experiment are on disk in \<open>wa\<close> and
  are the same in \<open>wb\<close>. \<open>unwritten number wa wb\<close>: from \<open>wa\<close> to \<open>wb\<close>
  nothing was written to a path of the experiment.
\<close>

definition experiment_call :: "lib \<Rightarrow> dataset \<Rightarrow> string \<Rightarrow> unit io" where
  "experiment_call L ds number =
     (case ds of (X_train, X_test, y_train, y_test) \<Rightarrow>
        decision_tree_experiment L X_train y_train X_test y_test 2
          (''decision_tree_experiment'' @ number) ''decision_tree'' number)"

definition experiment_paths :: "string \<Rightarrow> string list" where
  "experiment_paths number =
     artifact_paths (''decision_tree_experiment'' @ number) ''decision_tree'' number"

definition kept :: "string \<Rightarrow> world \<Rightarrow> world \<Rightarrow> bool" where
  "kept number wa wb \<longleftrightarrow>
     (\<forall>p \<in> set (experiment_paths number). files wa p \<noteq> None \<and> files wb p = files wa p)"

definition unwritten :: "string \<Rightarrow> world \<Rightarrow> world \<Rightarrow> bool" where
  "unwritten number wa wb \<longleftrightarrow>
     (\<exists>evs. trace wb = trace wa @ evs
        \<and> (\<forall>p \<in> set (experiment_paths number). p \<notin> fst ` set (writes evs)))"

section \<open>Example inputs\<close>

text \<open>
  A small world and a small library to run the definitions on: every path is writable,
  the CSV file holds four rows of two features, each dataset creator hands the frame back
  as training and as test part, the splitter repeats the whole data once per fold, the
  sampler always proposes the lower end of each range, every fit gives the tree that
  predicts a failure where the first feature is positive, and Cohen's kappa comes out as
  NaN.
\<close>

definition demo_world :: world where
  "demo_world = \<lparr>writable = (\<lambda>p. True), files = Map.empty, trace = []\<rparr>"

definition demo_frame :: frame where
  "demo_frame = \<lparr>columns = [''torque'', ''tool_wear''], rows = [[1, 0], [- 1, 0], [2, 1], [- 2, 1]]\<rparr>"

definition demo_labels :: "bool list" where
  "demo_labels = [True, False, True, True]"

definition demo_model :: fitted_model where
  "demo_model =
     \<lparr>fitted_steps = [],
      tree_feature_importances = [1 / 4, 3 / 4],
      predict = (\<lambda>X. Inr (map (\<lambda>r. case r of [] \<Rightarrow> False | x # _ \<Rightarrow> 0 < x) (rows X)))\<rparr>"

definition demo_trial_low :: trial where
  "demo_trial_low =
     \<lparr>draw_int = (\<lambda>name low high. low),
      draw_float = (\<lambda>name low high. low),
      draw_categorical = (\<lambda>name choices. case choices of [] \<Rightarrow> PNone | c # _ \<Rightarrow> c),
      params = Map.empty\<rparr>"

definition demo_trial_high :: trial where
  "demo_trial_high =
     \<lparr>draw_int = (\<lambda>name low high. high),
      draw_float = (\<lambda>name low high. high),
      draw_categorical = (\<lambda>name choices. case choices of [] \<Rightarrow> PNone | c # _ \<Rightarrow> c),
      params = Map.empty\<rparr>"

definition demo_lib :: lib where
  "demo_lib =
     \<lparr>read_csv = (\<lambda>path. Inr demo_frame),
      create_experiment1_dataset = (\<lambda>df. Inr (df, df, demo_labels, demo_labels)),
      create_experiment2_dataset = (\<lambda>df. Inr (df, df, demo_labels, demo_labels)),
      create_experiment3_dataset = (\<lambda>df. Inr (df, df, demo_labels, demo_labels)),
      create_experiment4_dataset = (\<lambda>df. Inr (df, df, demo_labels, demo_labels)),
      sampler = (\<lambda>ts. demo_trial_low),
      kfold = (\<lambda>cv X y. Inr (replicate cv ((X, y), (X, y)))),
      fit = (\<lambda>p X y. Inr (demo_model\<lparr>fitted_steps := p\<rparr>)),
      cohen_kappa_score = (\<lambda>y_true y_pred. Inr None),
      balanced_accuracy_score = (\<lambda>y_true y_pred. Inr (Some (1 / 2))),
      average_precision_score = (\<lambda>y_true y_pred. Inr (Some (3 / 4)))\<rparr>"

definition demo_lib_high :: lib where
  "demo_lib_high = demo_lib\<lparr>sampler := (\<lambda>ts. demo_trial_high)\<rparr>"

text \<open>
  A library that differs from \<open>demo_lib\<close> only in the draws of its sampler once a
  hundred trials are done.
\<close>

definition demo_lib_late :: lib where
  "demo_lib_late =
     demo_lib\<lparr>sampler := (\<lambda>ts. if length ts < 100 then demo_trial_low else demo_trial_high)\<rparr>"

text \<open>
  The dataset every creator of \<open>demo_lib\<close> returns, and the example world with the
  directory of one experiment's results missing, so that its first file cannot be written.
\<close>

definition demo_dataset :: dataset where
  "demo_dataset = (demo_frame, demo_frame, demo_labels, demo_labels)"

definition demo_world_without :: "string \<Rightarrow> world" where
  "demo_world_without number =
     demo_world\<lparr>writable :=
       (\<lambda>p. p \<noteq> ''results/decision_tree_experiment'' @ number @ ''/hyperparameters.csv'')\<rparr>"

section \<open>Lemmas about the monad and the scores\<close>

lemma io_bind_lift_Inr [simp]: "io_bind (io_lift (Inr a)) f = f a"
  by (simp add: io_bind_def io_lift_def)

lemma io_bind_lift_Inl [simp]: "io_bind (io_lift (Inl e)) f w = (Inl e, w)"
  by (simp add: io_bind_def io_lift_def)

lemma write_file_writable:
  "writable w path \<Longrightarrow> write_file path c w = (Inr (), wrote path c w)"
  by (simp add: write_file_def)

lemma count_list_zip_same:
  "count_list (zip ys ys) (a, b) = (if a = b then count_list ys a else 0)"
  by (induction ys) auto

lemma confusion_matrix_total:
  fixes y_true :: "'a::linorder list"
  assumes "length y_true = length y_pred"
  shows "sum_list (map sum_list
           (map (\<lambda>t. map (\<lambda>p. count_list (zip y_true y_pred) (t, p))
                  (sort (remdups (y_true @ y_pred))))
              (sort (remdups (y_true @ y_pred))))) = length y_true"
proof -
  let ?ls = "sort (remdups (y_true @ y_pred))"
  let ?A = "set y_true \<union> set y_pred"
  let ?zs = "zip y_true y_pred"
  have d: "distinct ?ls" and s: "set ?ls = ?A" by simp_all
  have sub: "set ?zs \<subseteq> ?A \<times> ?A"
    by (auto dest: set_zip_leftD set_zip_rightD)
  have "sum_list (map sum_list (map (\<lambda>t. map (\<lambda>p. count_list ?zs (t, p)) ?ls) ?ls))
      = (\<Sum>t\<in>?A. \<Sum>p\<in>?A. count_list ?zs (t, p))"
    using d s by (simp add: sum_list_distinct_conv_sum_set comp_def)
  also have "\<dots> = (\<Sum>tp\<in>?A \<times> ?A. count_list ?zs tp)"
    by (simp add: sum.cartesian_product)
  also have "\<dots> = length ?zs"
    using sub by (intro sum_count_set) auto
  finally show ?thesis using assms by simp
qed

lemma length_sorted_labels:
  "length (sort (remdups (xs @ ys))) = card (set xs \<union> set ys)"
proof -
  have "length (sort (remdups (xs @ ys))) = length (remdups (xs @ ys))" by simp
  also have "\<dots> = card (set (xs @ ys))" by (rule length_remdups_card_conv)
  finally show ?thesis by simp
qed

lemma perfect_counts:
  "tp y y = count_list y True" "fp y y = 0" "fn y y = 0"
  by (simp_all add: tp_def fp_def fn_def count_list_zip_same)

lemma perfect_scores:
  assumes "True \<in> set y"
  shows "precision_score y y = Inr 1" "recall_score y y = Inr 1"
    "0 \<le> beta \<Longrightarrow> fbeta_score y y beta = Inr 1"
proof -
  from assms have pos: "count_list y True \<noteq> 0" by (simp add: count_list_0_iff)
  then show "precision_score y y = Inr 1" "recall_score y y = Inr 1"
    by (simp_all add: precision_score_def recall_score_def perfect_counts prf_divide_def)
  assume "0 \<le> beta"
  moreover have "beta\<^sup>2 + 1 \<noteq> 0" by (metis add.commute power2_eq_square sum_squares_eq_zero_iff zero_neq_one mult_1 power_one)
  ultimately show "fbeta_score y y beta = Inr 1"
    using pos by (simp add: fbeta_score_def perfect_counts prf_divide_def Let_def add.commute)
qed

lemma diagonal_grid:
  fixes y :: "'a::linorder list"
  assumes "confusion_matrix y y = Inr cm" "i < length cm" "j < length cm" "i \<noteq> j"
  shows "cm ! i ! j = 0"
proof -
  let ?ls = "sort (remdups (y @ y))"
  have d: "distinct ?ls" by simp
  from assms(1) have cm: "cm = map (\<lambda>t. map (\<lambda>p. count_list (zip y y) (t, p)) ?ls) ?ls"
    by (simp add: confusion_matrix_def Let_def)
  with assms have i: "i < length ?ls" and j: "j < length ?ls" by simp_all
  with d assms(4) have "?ls ! i \<noteq> ?ls ! j" by (simp add: nth_eq_iff_index_eq)
  with i j show ?thesis unfolding cm by (simp add: count_list_zip_same)
qed

lemma all_wrong_tp:
  assumes "length y_pred = length y_true" "\<forall>i < length y_true. y_pred ! i \<noteq> y_true ! i"
  shows "tp y_true y_pred = 0"
  using assms by (auto simp: tp_def count_list_0_iff in_set_zip)

lemma sorted_desc:
  "sorted_wrt (\<lambda>a b. snd b \<le> (snd a :: real)) (sort_key (\<lambda>r. - snd r) xs)"
proof -
  have "sorted (map (\<lambda>r. - snd r) (sort_key (\<lambda>r. - snd r) xs))" by (rule sorted_sort_key)
  then show ?thesis by (simp add: sorted_map)
qed

lemma compute_and_save_metrics_row:
  assumes "precision_score y_true y_pred = Inr p" "recall_score y_true y_pred = Inr r"
    "fbeta_score y_true y_pred beta = Inr f"
    "cohen_kappa_score L y_true y_pred = Inr kappa"
    "balanced_accuracy_score L y_true y_pred = Inr ba"
    "average_precision_score L y_true y_pred = Inr ap"
    "writable w save_path"
  shows "compute_and_save_metrics L y_true y_pred beta save_path w =
      (Inr (),
       wrote save_path
         (Csv metrics_names [[PFloat p, PFloat r, PFloat f, pfloat kappa, pfloat ba, pfloat ap]])
         w)"
  using assms
  by (simp add: compute_and_save_metrics_def metrics_names_def to_csv_def write_file_writable)

section \<open>Rules for computations\<close>

lemma writes_append [simp]: "writes (xs @ ys) = writes xs @ writes ys"
  by (induction xs rule: writes.induct) auto

lemma apply_writes_append: "apply_writes (a @ b) fs = apply_writes b (apply_writes a fs)"
  by (simp add: apply_writes_def)

lemma extends_refl: "extends w [] w"
  by (simp add: extends_def apply_writes_def)

lemma extends_trans: "extends w e1 w1 \<Longrightarrow> extends w1 e2 w2 \<Longrightarrow> extends w (e1 @ e2) w2"
  by (simp add: extends_def apply_writes_append)

lemma extends_wrote: "extends w [Wrote p c] (wrote p c w)"
  by (simp add: extends_def wrote_def apply_writes_def)

lemma extends_emit: "writes [ev] = [] \<Longrightarrow> extends w [ev] (w\<lparr>trace := trace w @ [ev]\<rparr>)"
  by (simp add: extends_def apply_writes_def)

lemma spec_return: "Q (Inr a) [] \<Longrightarrow> io_spec (io_return a) Q"
  using extends_refl by (auto simp: io_spec_def io_return_def)

lemma spec_lift: "Q x [] \<Longrightarrow> io_spec (io_lift x) Q"
  using extends_refl by (auto simp: io_spec_def io_lift_def)

lemma spec_emit: "writes [ev] = [] \<Longrightarrow> Q (Inr ()) [ev] \<Longrightarrow> io_spec (emit ev) Q"
  using extends_emit by (auto simp: io_spec_def emit_def)

lemma spec_write_file:
  assumes "Q (Inr ()) [Wrote path c]" and "Q (Inl OSError) []"
  shows "io_spec (write_file path c) Q"
  unfolding io_spec_def
proof (intro allI impI)
  fix w r w' assume run: "write_file path c w = (r, w')"
  show "\<exists>evs. extends w evs w' \<and> Q r evs"
  proof (cases "writable w path")
    case True
    with run have "r = Inr ()" "w' = wrote path c w" by (simp_all add: write_file_def)
    with assms(1) extends_wrote show ?thesis by blast
  next
    case False
    with run have "r = Inl OSError" "w' = w" by (simp_all add: write_file_def)
    with assms(2) extends_refl show ?thesis by blast
  qed
qed

lemma spec_bind:
  assumes "io_spec m (\<lambda>r e1. case r of Inl e \<Rightarrow> Q (Inl e) e1
                                 | Inr a \<Rightarrow> io_spec (f a) (\<lambda>r' e2. Q r' (e1 @ e2)))"
  shows "io_spec (io_bind m f) Q"
  unfolding io_spec_def
proof (intro allI impI)
  fix w r w' assume run: "io_bind m f w = (r, w')"
  obtain r1 w1 where m: "m w = (r1, w1)" by (cases "m w")
  with assms obtain e1 where e1: "extends w e1 w1"
    and post: "case r1 of Inl e \<Rightarrow> Q (Inl e) e1
                 | Inr a \<Rightarrow> io_spec (f a) (\<lambda>r' e2. Q r' (e1 @ e2))"
    unfolding io_spec_def by blast
  show "\<exists>evs. extends w evs w' \<and> Q r evs"
  proof (cases r1)
    case (Inl e)
    with run m have "r = Inl e" "w' = w1" by (simp_all add: io_bind_def)
    with e1 post Inl show ?thesis by auto
  next
    case (Inr a)
    with run m have "f a w1 = (r, w')" by (simp add: io_bind_def)
    with post Inr obtain e2 where "extends w1 e2 w'" "Q r (e1 @ e2)"
      unfolding io_spec_def by fastforce
    with e1 show ?thesis using extends_trans by blast
  qed
qed

lemma spec_conseq:
  "io_spec m Q' \<Longrightarrow> (\<And>r evs. Q' r evs \<Longrightarrow> Q r evs) \<Longrightarrow> io_spec m Q"
  unfolding io_spec_def by blast

lemma spec_to_csv:
  "Q (Inr ()) [Wrote path (Csv (fst df) (snd df))] \<Longrightarrow> Q (Inl OSError) [] \<Longrightarrow> io_spec (to_csv df path) Q"
  unfolding to_csv_def by (rule spec_write_file)

lemma spec_compute_and_save_metrics:
  assumes "\<And>c. Q (Inr ()) [Wrote save_path c]" and "\<And>e. Q (Inl e) []"
  shows "io_spec (compute_and_save_metrics L y_true y_pred beta save_path) Q"
  unfolding compute_and_save_metrics_def
  by (intro spec_bind spec_lift spec_to_csv allI impI conjI | simp add: assms split: sum.split)+

lemma spec_calculate_and_save_feature_importances:
  assumes "\<And>c. Q (Inr ()) [Wrote save_path c]" and "\<And>e. Q (Inl e) []"
  shows "io_spec (calculate_and_save_feature_importances model feature_names save_path) Q"
  unfolding calculate_and_save_feature_importances_def Let_def
  by (intro spec_bind spec_lift spec_to_csv allI impI conjI | simp add: assms split: sum.split)+

lemma spec_save_confusion_matrix:
  assumes "\<And>c. Q (Inr ()) [Wrote filename c]" and "\<And>e. Q (Inl e) []"
  shows "io_spec (save_confusion_matrix y_true y_pred filename) Q"
  unfolding save_confusion_matrix_def savetxt_def
  by (intro spec_bind spec_lift spec_write_file allI impI conjI | simp add: assms split: sum.split)+

lemma spec_save_model:
  assumes "\<And>c. Q (Inr ()) [Wrote filename c]" and "\<And>e. Q (Inl e) []"
  shows "io_spec (save_model model filename) Q"
  unfolding save_model_def dump_def
  by (intro spec_write_file | simp add: assms)+

lemma spec_cross_val_score:
  "io_spec (cross_val_score L estimator X y cv scoring) (\<lambda>r evs. evs = [CrossValScore cv scoring])"
  unfolding cross_val_score_def
  by (intro spec_bind spec_emit spec_lift | simp)+

lemma spec_objective_events:
  "io_spec (objective L t X y beta) (\<lambda>r evs. evs = [CrossValScore 5 (make_scorer FbetaScore beta)])"
  unfolding objective_def Let_def
  by (simp split: prod.split)
     (intro allI impI spec_bind spec_conseq [OF spec_cross_val_score] spec_return | simp split: sum.split)+

lemma spec_step:
  assumes "io_spec m (\<lambda>r evs. evs = [ev] \<and> (\<forall>a. r = Inr a \<longrightarrow> H a))"
    and "\<And>e. Q (Inl e) [ev]"
    and "\<And>a. H a \<Longrightarrow> io_spec (f a) (\<lambda>r e2. Q r (ev # e2))"
  shows "io_spec (io_bind m f) Q"
proof (rule spec_bind, rule spec_conseq [OF assms(1)])
  fix r :: "error + 'a" and evs
  assume "evs = [ev] \<and> (\<forall>a. r = Inr a \<longrightarrow> H a)"
  then show "case r of Inl e \<Rightarrow> Q (Inl e) evs
              | Inr a \<Rightarrow> io_spec (f a) (\<lambda>r' e2. Q r' (evs @ e2))"
    using assms(2,3) by (cases r) simp_all
qed

lemma spec_run_trials:
  assumes "\<And>ts. io_spec (func (ask L ts))
              (\<lambda>r evs. evs = [ev] \<and> (\<forall>a. r = Inr a \<longrightarrow> G \<lparr>ft_params = params (snd a), ft_value = fst a\<rparr>))"
  shows "io_spec (run_trials L func n ts)
           (\<lambda>r evs. (\<exists>k\<le>n. evs = replicate k ev) \<and>
              (\<forall>ts'. r = Inr ts' \<longrightarrow>
                 evs = replicate n ev \<and> (\<exists>new. ts' = ts @ new \<and> length new = n \<and> list_all G new)))"
proof (induction n arbitrary: ts)
  case 0
  show ?case by (simp add: spec_return)
next
  case (Suc n)
  show ?case
    unfolding run_trials.simps
  proof (rule spec_step [OF assms])
    fix e :: error
    have "[ev] = replicate 1 ev" by simp
    then show "(\<exists>k\<le>Suc n. [ev] = replicate k ev) \<and>
         (\<forall>ts'. Inl e = Inr ts' \<longrightarrow> [ev] = replicate (Suc n) ev \<and>
             (\<exists>new. ts' = ts @ new \<and> length new = Suc n \<and> list_all G new))"
      by (metis Inl_Inr_False Suc_le_mono le0 One_nat_def)
  next
    fix a :: "real option \<times> trial"
    let ?ft = "\<lparr>ft_params = params (snd a), ft_value = fst a\<rparr>"
    assume g: "G ?ft"
    show "io_spec (run_trials L func n (ts @ [?ft]))
           (\<lambda>r e2. (\<exists>k\<le>Suc n. ev # e2 = replicate k ev) \<and>
              (\<forall>ts'. r = Inr ts' \<longrightarrow> ev # e2 = replicate (Suc n) ev \<and>
                  (\<exists>new. ts' = ts @ new \<and> length new = Suc n \<and> list_all G new)))"
    proof (rule spec_conseq [OF Suc.IH])
      fix r :: "error + frozen_trial list" and e2
      assume b: "(\<exists>k\<le>n. e2 = replicate k ev) \<and>
           (\<forall>ts'. r = Inr ts' \<longrightarrow> e2 = replicate n ev \<and>
               (\<exists>new. ts' = (ts @ [?ft]) @ new \<and> length new = n \<and> list_all G new))"
      then obtain k where k: "k \<le> n" "e2 = replicate k ev" by blast
      then have "Suc k \<le> Suc n" "ev # e2 = replicate (Suc k) ev" by simp_all
      then have one: "\<exists>k\<le>Suc n. ev # e2 = replicate k ev" by blast
      have two: "\<forall>ts'. r = Inr ts' \<longrightarrow> ev # e2 = replicate (Suc n) ev \<and>
                  (\<exists>new. ts' = ts @ new \<and> length new = Suc n \<and> list_all G new)"
      proof (intro allI impI)
        fix ts' assume "r = Inr ts'"
        with b obtain new where new: "e2 = replicate n ev"
          "ts' = (ts @ [?ft]) @ new" "length new = n" "list_all G new"
          by blast
        have "ts' = ts @ (?ft # new)" "length (?ft # new) = Suc n" "list_all G (?ft # new)"
          using new g by simp_all
        moreover have "ev # e2 = replicate (Suc n) ev" using new by simp
        ultimately show "ev # e2 = replicate (Suc n) ev \<and>
                  (\<exists>new. ts' = ts @ new \<and> length new = Suc n \<and> list_all G new)" by blast
      qed
      from one two show "(\<exists>k\<le>Suc n. ev # e2 = replicate k ev) \<and>
              (\<forall>ts'. r = Inr ts' \<longrightarrow> ev # e2 = replicate (Suc n) ev \<and>
                  (\<exists>new. ts' = ts @ new \<and> length new = Suc n \<and> list_all G new))" by blast
    qed
  qed
qed

lemma spec_optimize:
  assumes "\<And>ts. io_spec (func (ask L ts))
              (\<lambda>r evs. evs = [ev] \<and> (\<forall>a. r = Inr a \<longrightarrow> G \<lparr>ft_params = params (snd a), ft_value = fst a\<rparr>))"
  shows "io_spec (optimize L s func n)
           (\<lambda>r evs. (\<exists>k\<le>n. evs = Optimize (direction s) n # replicate k ev) \<and>
              (\<forall>s'. r = Inr s' \<longrightarrow>
                 evs = Optimize (direction s) n # replicate n ev \<and> direction s' = direction s \<and>
                 (\<exists>new. trials s' = trials s @ new \<and> length new = n \<and> list_all G new)))"
proof -
  let ?Q = "\<lambda>r evs. (\<exists>k\<le>n. evs = Optimize (direction s) n # replicate k ev) \<and>
              (\<forall>s'. r = Inr s' \<longrightarrow>
                 evs = Optimize (direction s) n # replicate n ev \<and> direction s' = direction s \<and>
                 (\<exists>new. trials s' = trials s @ new \<and> length new = n \<and> list_all G new))"
  have loop: "io_spec (run_trials L func n (trials s))
           (\<lambda>r evs. (\<exists>k\<le>n. evs = replicate k ev) \<and>
              (\<forall>ts'. r = Inr ts' \<longrightarrow>
                 evs = replicate n ev \<and> (\<exists>new. ts' = trials s @ new \<and> length new = n \<and> list_all G new)))"
    using assms by (rule spec_run_trials)
  have rest: "io_spec (io_bind (run_trials L func n (trials s)) (\<lambda>ts. io_return (s\<lparr>trials := ts\<rparr>)))
      (\<lambda>r e2. ?Q r (Optimize (direction s) n # e2))"
  proof (rule spec_bind, rule spec_conseq [OF loop])
    fix r :: "error + frozen_trial list" and evs
    assume a: "(\<exists>k\<le>n. evs = replicate k ev) \<and>
              (\<forall>ts'. r = Inr ts' \<longrightarrow>
                 evs = replicate n ev \<and> (\<exists>new. ts' = trials s @ new \<and> length new = n \<and> list_all G new))"
    show "case r of Inl e \<Rightarrow> ?Q (Inl e) (Optimize (direction s) n # evs)
           | Inr ts \<Rightarrow> io_spec (io_return (s\<lparr>trials := ts\<rparr>))
                (\<lambda>r' e2. ?Q r' (Optimize (direction s) n # evs @ e2))"
    proof (cases r)
      case (Inl e)
      with a show ?thesis by simp
    next
      case (Inr ts')
      with a have "evs = replicate n ev"
        and "\<exists>new. ts' = trials s @ new \<and> length new = n \<and> list_all G new" by simp_all
      with Inr show ?thesis by (simp add: spec_return)
    qed
  qed
  show ?thesis
    unfolding optimize_def
    by (rule spec_bind, rule spec_emit) (use rest in simp_all)
qed

lemma writes_replicate_cv [simp]: "writes (replicate k (CrossValScore cv s)) = []"
  by (induction k) simp_all

lemma spec_objective_any:
  "io_spec (objective L t X y beta)
     (\<lambda>r evs. evs = [CrossValScore 5 (make_scorer FbetaScore beta)] \<and>
        (\<forall>a. r = Inr a \<longrightarrow> (\<lambda>ft. True) \<lparr>ft_params = params (snd a), ft_value = fst a\<rparr>))"
  by (rule spec_conseq [OF spec_objective_events]) simp

lemma spec_search_silent:
  "io_spec (optimize L (create_study Maximize) (\<lambda>t. objective L t X y beta) 100)
     (\<lambda>r evs. writes evs = [])"
  by (rule spec_conseq [OF spec_optimize [where G = "\<lambda>ft. True", OF spec_objective_any]]) auto

lemma spec_experiment_writes:
  "io_spec (decision_tree_experiment L X_train y_train X_test y_test beta d m n)
     (\<lambda>r evs. case r of
         Inr _ \<Rightarrow> map fst (writes evs) = artifact_paths d m n
       | Inl _ \<Rightarrow> length (writes evs) < 5 \<and>
                  map fst (writes evs) = take (length (writes evs)) (artifact_paths d m n))"
  unfolding decision_tree_experiment_def
  apply (rule spec_bind)
  apply (rule spec_conseq [OF spec_search_silent])
  apply (intro spec_bind spec_lift spec_emit spec_to_csv
          spec_compute_and_save_metrics spec_calculate_and_save_feature_importances
          spec_save_confusion_matrix spec_save_model allI impI conjI
        | simp add: artifact_paths_def split: sum.split)+
  done

section \<open>Running the example\<close>

lemma demo_fbeta: "fbeta_score demo_labels [True, False, True, False] 2 = Inr (5 / 7)"
  by (simp add: fbeta_score_def demo_labels_def tp_def fp_def fn_def prf_divide_def Let_def)

lemma demo_predict: "predict demo_model demo_frame = Inr [True, False, True, False]"
  by (simp add: demo_model_def demo_frame_def)

lemma demo_fit_and_score:
  "fit_and_score (demo_lib\<lparr>sampler := S\<rparr>) p (make_scorer FbetaScore 2) ((demo_frame, demo_labels), (demo_frame, demo_labels))
     = (True, Some (5 / 7))"
  by (simp add: fit_and_score_def demo_lib_def apply_scorer_def make_scorer_def demo_predict demo_fbeta)

lemma demo_cross_val_score:
  "cross_val_score (demo_lib\<lparr>sampler := S\<rparr>) p demo_frame demo_labels 5 (make_scorer FbetaScore 2) w =
     (Inr (replicate 5 (Some (5 / 7))), w\<lparr>trace := trace w @ [CrossValScore 5 (make_scorer FbetaScore 2)]\<rparr>)"
proof -
  have k: "kfold demo_lib 5 demo_frame demo_labels =
      Inr (replicate 5 ((demo_frame, demo_labels), (demo_frame, demo_labels)))"
    by (simp add: demo_lib_def)
  show ?thesis
    by (simp add: cross_val_score_def io_bind_def emit_def io_lift_def k demo_fit_and_score
          list_all_iff)
qed


lemma np_mean_replicate5: "np_mean (replicate 5 (Some v)) = Some v"
  by (simp add: np_mean_def eval_nat_numeral)

lemma demo_objective:
  "objective (demo_lib\<lparr>sampler := S\<rparr>) (t\<lparr>params := Map.empty\<rparr>) demo_frame demo_labels 2 w =
     (Inr (Some (5 / 7), t\<lparr>params := suggested (t\<lparr>params := Map.empty\<rparr>)\<rparr>),
      w\<lparr>trace := trace w @ [CrossValScore 5 (make_scorer FbetaScore 2)]\<rparr>)"
  by (simp add: objective_def suggest_int_def suggest_float_def suggest_categorical_def Let_def
        io_bind_def demo_cross_val_score io_return_def np_mean_replicate5 suggested_def)

lemma run_trials_constant:
  assumes "\<And>ts w. func (ask L ts) w = (Inr (v, t'), w\<lparr>trace := trace w @ [ev]\<rparr>)"
  shows "run_trials L func n ts w =
           (Inr (ts @ replicate n \<lparr>ft_params = params t', ft_value = v\<rparr>),
            w\<lparr>trace := trace w @ replicate n ev\<rparr>)"
proof (induction n arbitrary: ts w)
  case 0
  show ?case by (simp add: io_return_def)
next
  case (Suc n)
  show ?case
    by (simp add: io_bind_def assms Suc.IH replicate_app_Cons_same)
qed

lemma best_of_equals:
  "foldl (\<lambda>b c. if better d (ft_value c) (ft_value b) then c else b) ft (replicate n ft) = ft"
  by (induction n) (cases d; cases "ft_value ft"; simp)+

lemma best_trial_replicate:
  assumes "0 < n" and "ft_value ft = Some v"
  shows "best_trial \<lparr>direction = d, trials = replicate n ft\<rparr> = Inr ft"
proof -
  from assms(1) obtain k where "n = Suc k" by (cases n) simp_all
  with assms(2) show ?thesis by (simp add: best_trial_def best_of_equals)
qed

lemma demo_optimize:
  "optimize (demo_lib\<lparr>sampler := (\<lambda>ts. t0)\<rparr>) (create_study Maximize)
      (\<lambda>t. objective (demo_lib\<lparr>sampler := (\<lambda>ts. t0)\<rparr>) t demo_frame demo_labels 2) 100 w =
     (Inr \<lparr>direction = Maximize,
           trials = replicate 100 \<lparr>ft_params = suggested (t0\<lparr>params := Map.empty\<rparr>), ft_value = Some (5 / 7)\<rparr>\<rparr>,
      w\<lparr>trace := trace w @ Optimize Maximize 100 #
                 replicate 100 (CrossValScore 5 (make_scorer FbetaScore 2))\<rparr>)"
proof -
  let ?L = "demo_lib\<lparr>sampler := (\<lambda>ts. t0)\<rparr>"
  have step: "\<And>ts w. objective ?L (ask ?L ts) demo_frame demo_labels 2 w =
     (Inr (Some (5 / 7), t0\<lparr>params := suggested (t0\<lparr>params := Map.empty\<rparr>)\<rparr>),
      w\<lparr>trace := trace w @ [CrossValScore 5 (make_scorer FbetaScore 2)]\<rparr>)"
    by (simp add: ask_def demo_objective)
  show ?thesis
    by (simp add: optimize_def create_study_def io_bind_def emit_def io_return_def
          run_trials_constant [where func = "\<lambda>t. objective ?L t demo_frame demo_labels 2", OF step])
qed

lemma demo_experiment:
  assumes "\<And>p. writable w p"
  shows "\<exists>w'. decision_tree_experiment (demo_lib\<lparr>sampler := (\<lambda>ts. t0)\<rparr>) demo_frame demo_labels
               demo_frame demo_labels 2 d m n w = (Inr (), w')
           \<and> writable w' = writable w
           \<and> files w' (''results/'' @ d @ ''/hyperparameters.csv'') =
               Some (Csv [''max_depth'', ''min_samples_split'', ''min_samples_leaf'', ''class_weight'']
                [[PInt (draw_int t0 ''max_depth'' 1 50),
                  PFloat (draw_float t0 ''min_samples_split'' 0.001 1),
                  PFloat (draw_float t0 ''min_samples_leaf'' 0.001 0.5),
                  draw_categorical t0 ''class_weight'' [PNone, PStr ''balanced'']]])"
proof -
  let ?ft = "\<lparr>ft_params = suggested (t0\<lparr>params := Map.empty\<rparr>), ft_value = Some (5 / 7)\<rparr>"
  have best: "best_trial \<lparr>direction = Maximize, trials = replicate 100 ?ft\<rparr> = Inr ?ft"
    by (rule best_trial_replicate [where v = "5 / 7"]) simp_all
  have conf: "\<exists>cm. confusion_matrix demo_labels [True, False, True, False] = Inr cm"
    by (simp add: confusion_matrix_def demo_labels_def Let_def)
  then obtain cm where cm: "confusion_matrix demo_labels [True, False, True, False] = Inr cm" ..
  have sc: "precision_score demo_labels [True, False, True, False] = Inr 1"
      "recall_score demo_labels [True, False, True, False] = Inr (2 / 3)"
    by (simp_all add: precision_score_def recall_score_def demo_labels_def tp_def fp_def fn_def prf_divide_def)
  show ?thesis
    apply (simp add: decision_tree_experiment_def)
    apply (subst io_bind_def)
    apply (simp add: demo_optimize best)
    apply (simp add: io_bind_def emit_def getitem_def suggested_def to_csv_def write_file_def assms)
    apply (simp add: demo_lib_def demo_predict io_lift_def)
    apply (simp add: compute_and_save_metrics_def sc demo_fbeta io_bind_def io_lift_def to_csv_def
             write_file_def assms wrote_def)
    apply (simp add: calculate_and_save_feature_importances_def demo_model_def demo_frame_def
             to_csv_def write_file_def assms wrote_def)
    apply (simp add: save_confusion_matrix_def cm io_bind_def io_lift_def savetxt_def write_file_def
             assms wrote_def save_model_def dump_def)
    done
qed

section \<open>Successful runs\<close>

lemma io_bind_Inr_iff:
  "io_bind m f w = (Inr b, w') \<longleftrightarrow> (\<exists>a w1. m w = (Inr a, w1) \<and> f a w1 = (Inr b, w'))"
  by (auto simp: io_bind_def split: prod.splits sum.splits)

lemma io_bind_InrE:
  assumes "io_bind m f w = (Inr b, w')"
  obtains a w1 where "m w = (Inr a, w1)" and "f a w1 = (Inr b, w')"
  using assms by (auto simp: io_bind_Inr_iff)

lemma io_bind_unitE:
  assumes "io_bind m f w = (Inr b, w')"
  obtains w1 where "m w = (Inr (), w1)" and "f () w1 = (Inr b, w')"
  using assms by (auto simp: io_bind_Inr_iff)

lemma io_lift_Inr_iff: "io_lift x w = (Inr a, w') \<longleftrightarrow> x = Inr a \<and> w' = w"
  by (auto simp: io_lift_def)

lemma emit_Inr_iff: "emit ev w = (Inr (), w') \<longleftrightarrow> w' = w\<lparr>trace := trace w @ [ev]\<rparr>"
  by (auto simp: emit_def)

lemma write_file_Inr_iff:
  "write_file path c w = (Inr u, w') \<longleftrightarrow> writable w path \<and> w' = wrote path c w"
  by (auto simp: write_file_def)

lemma extends_single_write:
  "extends w [Wrote p c] w' \<Longrightarrow> w' = wrote p c w"
  by (cases w; cases w') (simp add: extends_def wrote_def apply_writes_def)

lemma extends_silent:
  "extends w evs w' \<Longrightarrow> writes evs = [] \<Longrightarrow> w' = w\<lparr>trace := trace w @ evs\<rparr>"
  by (cases w; cases w') (simp add: extends_def apply_writes_def)

lemma io_specD:
  "io_spec m Q \<Longrightarrow> m w = (r, w') \<Longrightarrow> \<exists>evs. extends w evs w' \<and> Q r evs"
  unfolding io_spec_def by blast

lemma writer_success:
  assumes spec: "\<And>Q. (\<And>c. Q (Inr ()) [Wrote p c]) \<Longrightarrow> (\<And>e. Q (Inl e) []) \<Longrightarrow> io_spec m Q"
    and run: "m w = (Inr (), w')"
  shows "\<exists>c. w' = wrote p c w"
proof -
  have "io_spec m (\<lambda>r evs. r = Inr () \<longrightarrow> (\<exists>c. evs = [Wrote p c]))"
    by (rule spec) simp_all
  from io_specD [OF this run] obtain c where "extends w [Wrote p c] w'" by auto
  then show ?thesis using extends_single_write by blast
qed

lemma compute_and_save_metrics_success:
  "compute_and_save_metrics L y_true y_pred beta p w = (Inr (), w') \<Longrightarrow> \<exists>c. w' = wrote p c w"
  by (rule writer_success [where m = "compute_and_save_metrics L y_true y_pred beta p"])
     (rule spec_compute_and_save_metrics)

lemma calculate_and_save_feature_importances_success:
  "calculate_and_save_feature_importances model names p w = (Inr (), w') \<Longrightarrow> \<exists>c. w' = wrote p c w"
  by (rule writer_success [where m = "calculate_and_save_feature_importances model names p"])
     (rule spec_calculate_and_save_feature_importances)

lemma save_confusion_matrix_success:
  "save_confusion_matrix y_true y_pred p w = (Inr (), w') \<Longrightarrow> \<exists>c. w' = wrote p c w"
  by (rule writer_success [where m = "save_confusion_matrix y_true y_pred p"])
     (rule spec_save_confusion_matrix)

lemma optimize_success:
  assumes obj: "\<And>ts. io_spec (func (ask L ts))
              (\<lambda>r evs. evs = [ev] \<and> (\<forall>a. r = Inr a \<longrightarrow> G \<lparr>ft_params = params (snd a), ft_value = fst a\<rparr>))"
    and silent: "writes [ev] = []"
    and run: "optimize L (create_study d) func n w = (Inr s, w1)"
  shows "direction s = d \<and> length (trials s) = n \<and> list_all G (trials s)
         \<and> w1 = w\<lparr>trace := trace w @ Optimize d n # replicate n ev\<rparr>"
proof -
  from io_specD [OF spec_optimize [where G = G and ev = ev and func = func and L = L, OF obj] run]
  obtain evs where ext: "extends w evs w1"
    and evs: "evs = Optimize (direction (create_study d)) n # replicate n ev"
    and dir: "direction s = direction (create_study d)"
    and tr: "\<exists>new. trials s = trials (create_study d) @ new \<and> length new = n \<and> list_all G new"
    by blast
  have "writes (replicate n ev) = []" using silent by (induction n) (cases ev; simp)+
  then have "writes evs = []" using evs by simp
  from extends_silent [OF ext this] evs dir tr show ?thesis
    by (auto simp: create_study_def)
qed

lemma experiment_success:
  assumes obj: "\<And>ts. io_spec (objective L (ask L ts) X_train y_train beta)
              (\<lambda>r evs. evs = [CrossValScore 5 (make_scorer FbetaScore beta)] \<and>
                 (\<forall>a. r = Inr a \<longrightarrow> G \<lparr>ft_params = params (snd a), ft_value = fst a\<rparr>))"
    and run: "decision_tree_experiment L X_train y_train X_test y_test beta d m n w = (Inr (), w')"
  obtains s b v1 v2 v3 v4 model y_pred c2 c3 c4 where
    "optimize L (create_study Maximize) (\<lambda>t. objective L t X_train y_train beta) 100 w =
       (Inr s, w\<lparr>trace := trace w @ Optimize Maximize 100 #
                    replicate 100 (CrossValScore 5 (make_scorer FbetaScore beta))\<rparr>)"
    and "direction s = Maximize" and "length (trials s) = 100" and "list_all G (trials s)"
    and "best_trial s = Inr b"
    and "getitem (ft_params b) ''max_depth'' = Inr v1"
    and "getitem (ft_params b) ''min_samples_split'' = Inr v2"
    and "getitem (ft_params b) ''min_samples_leaf'' = Inr v3"
    and "getitem (ft_params b) ''class_weight'' = Inr v4"
    and "fit L (make_pipeline [StandardScaler, DecisionTreeClassifier
            \<lparr>max_depth = v1, min_samples_split = v2, min_samples_leaf = v3, class_weight = v4\<rparr>])
          X_train y_train = Inr model"
    and "predict model X_test = Inr y_pred"
    and "w' =
      wrote (''models/'' @ m @ ''/'' @ n @ ''.joblib'') (Joblib model)
        (wrote (''results/'' @ d @ ''/confusion_matrix.txt'') c4
          (wrote (''results/'' @ d @ ''/feature_importances.csv'') c3
            (wrote (''results/'' @ d @ ''/metrics.csv'') c2
              (wrote (''results/'' @ d @ ''/hyperparameters.csv'')
                 (Csv [''max_depth'', ''min_samples_split'', ''min_samples_leaf'', ''class_weight'']
                    [[v1, v2, v3, v4]])
                 (w\<lparr>trace := trace w @ Optimize Maximize 100 #
                      replicate 100 (CrossValScore 5 (make_scorer FbetaScore beta)) @
                      [Printed ''Best trial recall: '' (ft_value b) (ft_params b)]\<rparr>)))))"
proof -
  let ?cv = "CrossValScore 5 (make_scorer FbetaScore beta)"
  let ?w1 = "w\<lparr>trace := trace w @ Optimize Maximize 100 # replicate 100 ?cv\<rparr>"
  from run obtain s w1 b v1 v2 v3 v4 w2 model y_pred w3 w4 w5 where
    opt: "optimize L (create_study Maximize) (\<lambda>t. objective L t X_train y_train beta) 100 w = (Inr s, w1)"
    and best: "best_trial s = Inr b"
    and g: "getitem (ft_params b) ''max_depth'' = Inr v1"
      "getitem (ft_params b) ''min_samples_split'' = Inr v2"
      "getitem (ft_params b) ''min_samples_leaf'' = Inr v3"
      "getitem (ft_params b) ''class_weight'' = Inr v4"
    and hp: "to_csv ([''max_depth'', ''min_samples_split'', ''min_samples_leaf'', ''class_weight''],
                [[v1, v2, v3, v4]]) (''results/'' @ d @ ''/hyperparameters.csv'')
              (w1\<lparr>trace := trace w1 @ [Printed ''Best trial recall: '' (ft_value b) (ft_params b)]\<rparr>)
            = (Inr (), w2)"
    and fit: "fit L (make_pipeline [StandardScaler, DecisionTreeClassifier
            \<lparr>max_depth = v1, min_samples_split = v2, min_samples_leaf = v3, class_weight = v4\<rparr>])
          X_train y_train = Inr model"
    and pred: "predict model X_test = Inr y_pred"
    and met: "compute_and_save_metrics L y_test y_pred beta (''results/'' @ d @ ''/metrics.csv'') w2
            = (Inr (), w3)"
    and imp: "calculate_and_save_feature_importances model (columns X_train)
              (''results/'' @ d @ ''/feature_importances.csv'') w3 = (Inr (), w4)"
    and cm: "save_confusion_matrix y_test y_pred (''results/'' @ d @ ''/confusion_matrix.txt'') w4
            = (Inr (), w5)"
    and sav: "save_model model (''models/'' @ m @ ''/'' @ n @ ''.joblib'') w5 = (Inr (), w')"
    unfolding decision_tree_experiment_def
    apply (elim io_bind_unitE io_bind_InrE)
    apply (simp only: io_lift_Inr_iff emit_Inr_iff)
    done
  from optimize_success [where G = G, OF obj _ opt]
  have s: "direction s = Maximize" "length (trials s) = 100" "list_all G (trials s)"
    and w1: "w1 = ?w1" by simp_all
  from hp have w2: "w2 = wrote (''results/'' @ d @ ''/hyperparameters.csv'')
                 (Csv [''max_depth'', ''min_samples_split'', ''min_samples_leaf'', ''class_weight'']
                    [[v1, v2, v3, v4]])
                 (w1\<lparr>trace := trace w1 @ [Printed ''Best trial recall: '' (ft_value b) (ft_params b)]\<rparr>)"
    by (simp add: to_csv_def write_file_Inr_iff)
  from compute_and_save_metrics_success [OF met] obtain c2
    where w3: "w3 = wrote (''results/'' @ d @ ''/metrics.csv'') c2 w2" ..
  from calculate_and_save_feature_importances_success [OF imp] obtain c3
    where w4: "w4 = wrote (''results/'' @ d @ ''/feature_importances.csv'') c3 w3" ..
  from save_confusion_matrix_success [OF cm] obtain c4
    where w5: "w5 = wrote (''results/'' @ d @ ''/confusion_matrix.txt'') c4 w4" ..
  from sav have w': "w' = wrote (''models/'' @ m @ ''/'' @ n @ ''.joblib'') (Joblib model) w5"
    by (simp add: save_model_def dump_def write_file_Inr_iff)
  show thesis
  proof (rule that [of s b v1 v2 v3 v4 model y_pred c4 c3 c2])
    show "optimize L (create_study Maximize) (\<lambda>t. objective L t X_train y_train beta) 100 w = (Inr s, ?w1)"
      using opt w1 by simp
    show "w' =
      wrote (''models/'' @ m @ ''/'' @ n @ ''.joblib'') (Joblib model)
        (wrote (''results/'' @ d @ ''/confusion_matrix.txt'') c4
          (wrote (''results/'' @ d @ ''/feature_importances.csv'') c3
            (wrote (''results/'' @ d @ ''/metrics.csv'') c2
              (wrote (''results/'' @ d @ ''/hyperparameters.csv'')
                 (Csv [''max_depth'', ''min_samples_split'', ''min_samples_leaf'', ''class_weight'']
                    [[v1, v2, v3, v4]])
                 (w\<lparr>trace := trace w @ Optimize Maximize 100 #
                      replicate 100 ?cv @
                      [Printed ''Best trial recall: '' (ft_value b) (ft_params b)]\<rparr>)))))"
      unfolding w' w5 w4 w3 w2 w1 by simp
  qed (fact s best g fit pred)+
qed

lemma apply_writes_Nil: "apply_writes [] fs = fs"
  by (simp add: apply_writes_def)

lemma apply_writes_Cons: "apply_writes (a # ws) fs = apply_writes ws (fs(fst a \<mapsto> snd a))"
  by (simp add: apply_writes_def)

lemma apply_writes_other:
  "p \<notin> fst ` set ws \<Longrightarrow> apply_writes ws fs p = fs p"
  by (induction ws arbitrary: fs) (simp_all add: apply_writes_Nil apply_writes_Cons)

lemma apply_writes_written:
  "p \<in> fst ` set ws \<Longrightarrow> apply_writes ws fs p \<noteq> None"
proof (induction ws arbitrary: fs)
  case Nil
  then show ?case by simp
next
  case (Cons a ws)
  show ?case
  proof (cases "p \<in> fst ` set ws")
    case True
    then show ?thesis using Cons.IH by (simp add: apply_writes_Cons)
  next
    case False
    with Cons.prems have p: "p = fst a" by auto
    from False have "apply_writes ws (fs(fst a \<mapsto> snd a)) p = (fs(fst a \<mapsto> snd a)) p"
      by (rule apply_writes_other)
    with p show ?thesis by (simp add: apply_writes_Cons)
  qed
qed

lemma artifact_paths_distinct: "length (artifact_paths d m n) = 5 \<and> distinct (artifact_paths d m n)"
  by (simp add: artifact_paths_def)

section \<open>The objective and the search space\<close>

lemma objective_unfold:
  "objective L t X y beta =
     io_bind (cross_val_score L (candidate t) X y 5 (make_scorer FbetaScore beta)) (\<lambda>scores.
       io_return (np_mean scores, t\<lparr>params := suggested t\<rparr>))"
  by (simp add: objective_def suggest_int_def suggest_float_def suggest_categorical_def Let_def
        candidate_def suggested_def)

lemma fit_and_score_fbeta:
  "snd (fit_and_score L estimator (make_scorer FbetaScore beta) f) = fold_fbeta L estimator beta f"
  by (simp add: fit_and_score_def fold_fbeta_def apply_scorer_def make_scorer_def
        split: sum.splits)

lemma cross_val_score_Inr:
  assumes "cross_val_score L estimator X y cv (make_scorer FbetaScore beta) w = (Inr scores, w')"
  shows "\<exists>folds. kfold L cv X y = Inr folds \<and> scores = map (fold_fbeta L estimator beta) folds"
  using assms fit_and_score_fbeta [of L estimator beta]
  by (auto simp: cross_val_score_def io_bind_def emit_def io_lift_def Let_def comp_def
        split: sum.splits if_splits)

lemma spec_objective:
  "io_spec (objective L t X y beta)
     (\<lambda>r evs. evs = [CrossValScore 5 (make_scorer FbetaScore beta)] \<and>
        (\<forall>a. r = Inr a \<longrightarrow>
           params (snd a) = suggested t \<and>
           (\<exists>folds. kfold L 5 X y = Inr folds \<and>
              fst a = mean_fold_fbeta L (candidate t) beta folds)))"
  unfolding io_spec_def
proof (intro allI impI)
  fix w r w'
  assume run: "objective L t X y beta w = (r, w')"
  let ?cv = "CrossValScore 5 (make_scorer FbetaScore beta)"
  from io_specD [OF spec_objective_events run] obtain evs
    where ext: "extends w evs w'" and evs: "evs = [?cv]" by blast
  have "\<forall>a. r = Inr a \<longrightarrow>
           params (snd a) = suggested t \<and>
           (\<exists>folds. kfold L 5 X y = Inr folds \<and>
              fst a = mean_fold_fbeta L (candidate t) beta folds)"
  proof (intro allI impI)
    fix a assume "r = Inr a"
    with run obtain scores w1 where
      cv: "cross_val_score L (candidate t) X y 5 (make_scorer FbetaScore beta) w = (Inr scores, w1)"
      and a: "a = (np_mean scores, t\<lparr>params := suggested t\<rparr>)"
      unfolding objective_unfold by (auto simp: io_bind_Inr_iff io_return_def)
    from cross_val_score_Inr [OF cv] a
    show "params (snd a) = suggested t \<and>
           (\<exists>folds. kfold L 5 X y = Inr folds \<and>
              fst a = mean_fold_fbeta L (candidate t) beta folds)"
      by (auto simp: mean_fold_fbeta_def)
  qed
  with ext evs show "\<exists>evs. extends w evs w' \<and> evs = [?cv] \<and>
        (\<forall>a. r = Inr a \<longrightarrow>
           params (snd a) = suggested t \<and>
           (\<exists>folds. kfold L 5 X y = Inr folds \<and>
              fst a = mean_fold_fbeta L (candidate t) beta folds))"
    by blast
qed

lemma respects_rangesD:
  assumes "respects_ranges t"
  shows "li \<le> hi \<Longrightarrow> li \<le> draw_int t name li hi \<and> draw_int t name li hi \<le> hi"
    and "lf \<le> hf \<Longrightarrow> lf \<le> draw_float t name lf hf \<and> draw_float t name lf hf \<le> hf"
    and "choices \<noteq> [] \<Longrightarrow> draw_categorical t name choices \<in> set choices"
  using assms unfolding respects_ranges_def by blast+

lemma suggested_in_space:
  assumes "respects_ranges t" and "params t = Map.empty"
  shows "in_search_space (suggested t)" and "dom (suggested t) = set hyperparameter_names"
proof -
  have i: "1 \<le> draw_int t ''max_depth'' 1 50 \<and> draw_int t ''max_depth'' 1 50 \<le> 50"
    by (rule respects_rangesD(1) [OF assms(1)]) simp
  have s: "0.001 \<le> draw_float t ''min_samples_split'' 0.001 1
      \<and> draw_float t ''min_samples_split'' 0.001 1 \<le> 1"
    by (rule respects_rangesD(2) [OF assms(1)]) simp
  have l: "0.001 \<le> draw_float t ''min_samples_leaf'' 0.001 0.5
      \<and> draw_float t ''min_samples_leaf'' 0.001 0.5 \<le> 0.5"
    by (rule respects_rangesD(2) [OF assms(1)]) simp
  have "draw_categorical t ''class_weight'' [PNone, PStr ''balanced'']
      \<in> set [PNone, PStr ''balanced'']"
    by (rule respects_rangesD(3) [OF assms(1)]) simp
  then have c: "draw_categorical t ''class_weight'' [PNone, PStr ''balanced''] = PNone
      \<or> draw_categorical t ''class_weight'' [PNone, PStr ''balanced''] = PStr ''balanced''"
    by simp
  have "in_search_space (suggested t) \<longleftrightarrow>
      (1 \<le> draw_int t ''max_depth'' 1 50 \<and> draw_int t ''max_depth'' 1 50 \<le> 50)
      \<and> (0.001 \<le> draw_float t ''min_samples_split'' 0.001 1
          \<and> draw_float t ''min_samples_split'' 0.001 1 \<le> 1)
      \<and> (0.001 \<le> draw_float t ''min_samples_leaf'' 0.001 0.5
          \<and> draw_float t ''min_samples_leaf'' 0.001 0.5 \<le> 0.5)
      \<and> (case draw_categorical t ''class_weight'' [PNone, PStr ''balanced''] of
            PNone \<Rightarrow> True | PStr s \<Rightarrow> s = ''balanced'' | _ \<Rightarrow> False)"
    unfolding in_search_space_def suggested_def by simp
  moreover have "case draw_categorical t ''class_weight'' [PNone, PStr ''balanced''] of
            PNone \<Rightarrow> True | PStr s \<Rightarrow> s = ''balanced'' | _ \<Rightarrow> False"
    using c by auto
  ultimately show "in_search_space (suggested t)" using i s l by blast
  from assms(2) show "dom (suggested t) = set hyperparameter_names"
    by (auto simp: suggested_def hyperparameter_names_def)
qed

lemma respects_ranges_ask: "respects_ranges (sampler L ts) \<Longrightarrow> respects_ranges (ask L ts)"
  by (simp add: respects_ranges_def ask_def)

lemma spec_objective_space:
  assumes "respects_ranges (sampler L ts)"
  shows "io_spec (objective L (ask L ts) X y beta)
     (\<lambda>r evs. evs = [CrossValScore 5 (make_scorer FbetaScore beta)] \<and>
        (\<forall>a. r = Inr a \<longrightarrow>
           (\<lambda>ft. in_search_space (ft_params ft) \<and> dom (ft_params ft) = set hyperparameter_names)
             \<lparr>ft_params = params (snd a), ft_value = fst a\<rparr>))"
proof (rule spec_conseq [OF spec_objective])
  fix r :: "error + real option \<times> trial" and evs
  assume "evs = [CrossValScore 5 (make_scorer FbetaScore beta)] \<and>
        (\<forall>a. r = Inr a \<longrightarrow>
           params (snd a) = suggested (ask L ts) \<and>
           (\<exists>folds. kfold L 5 X y = Inr folds \<and>
              fst a = mean_fold_fbeta L (candidate (ask L ts)) beta folds))"
  moreover have "params (ask L ts) = Map.empty" by (simp add: ask_def)
  ultimately show "evs = [CrossValScore 5 (make_scorer FbetaScore beta)] \<and>
        (\<forall>a. r = Inr a \<longrightarrow>
           (\<lambda>ft. in_search_space (ft_params ft) \<and> dom (ft_params ft) = set hyperparameter_names)
             \<lparr>ft_params = params (snd a), ft_value = fst a\<rparr>)"
    using suggested_in_space [OF respects_ranges_ask [OF assms]] by simp
qed

lemma foldl_choice_mem:
  "foldl (\<lambda>b c. if P c b then c else b) t ts \<in> set (t # ts)"
proof (induction ts arbitrary: t)
  case Nil
  show ?case by simp
next
  case (Cons c ts)
  have "foldl (\<lambda>b c. if P c b then c else b) (if P c t then c else t) ts
          \<in> set ((if P c t then c else t) # ts)"
    by (rule Cons.IH)
  then show ?case by (cases "P c t") auto
qed

lemma best_trial_mem:
  assumes "best_trial s = Inr b"
  shows "b \<in> set (trials s)" and "ft_value b \<noteq> None"
proof -
  from assms obtain t ts where f: "filter (\<lambda>t. ft_value t \<noteq> None) (trials s) = t # ts"
    and b: "b = foldl (\<lambda>b c. if better (direction s) (ft_value c) (ft_value b) then c else b) t ts"
    by (auto simp: best_trial_def split: list.splits)
  from b have "b \<in> set (t # ts)"
    using foldl_choice_mem [of "\<lambda>c b. better (direction s) (ft_value c) (ft_value b)" t ts] by simp
  with f have "b \<in> set (filter (\<lambda>t. ft_value t \<noteq> None) (trials s))" by simp
  then show "b \<in> set (trials s)" and "ft_value b \<noteq> None" by simp_all
qed

lemma files_wrote: "files (wrote p c w) q = (if q = p then Some c else files w q)"
  by (simp add: wrote_def)

lemma writable_wrote: "writable (wrote p c w) = writable w"
  by (simp add: wrote_def)

lemma trace_wrote: "trace (wrote p c w) = trace w @ [Wrote p c]"
  by (simp add: wrote_def)

lemma in_search_space_row:
  assumes "in_search_space ps"
    and "getitem ps ''max_depth'' = Inr v1"
    and "getitem ps ''min_samples_split'' = Inr v2"
    and "getitem ps ''min_samples_leaf'' = Inr v3"
    and "getitem ps ''class_weight'' = Inr v4"
  shows "\<exists>k x y. v1 = PInt k \<and> v2 = PFloat x \<and> v3 = PFloat y
           \<and> 1 \<le> k \<and> k \<le> 50 \<and> 0.001 \<le> x \<and> x \<le> 1 \<and> 0.001 \<le> y \<and> y \<le> 0.5
           \<and> (v4 = PNone \<or> v4 = PStr ''balanced'')"
proof -
  from assms(1,2) have 1: "\<exists>k. v1 = PInt k \<and> 1 \<le> k \<and> k \<le> 50"
    by (auto simp: in_search_space_def getitem_def split: option.splits pval.splits)
  from assms(1,3) have 2: "\<exists>x. v2 = PFloat x \<and> 0.001 \<le> x \<and> x \<le> 1"
    by (auto simp: in_search_space_def getitem_def split: option.splits pval.splits)
  from assms(1,4) have 3: "\<exists>y. v3 = PFloat y \<and> 0.001 \<le> y \<and> y \<le> 0.5"
    by (auto simp: in_search_space_def getitem_def split: option.splits pval.splits)
  from assms(1,5) have 4: "v4 = PNone \<or> v4 = PStr ''balanced''"
    by (auto simp: in_search_space_def getitem_def split: option.splits pval.splits)
  from 1 2 3 4 show ?thesis by blast
qed

lemma demo_trial_low_respects: "respects_ranges demo_trial_low"
  by (auto simp: respects_ranges_def demo_trial_low_def split: list.splits)

lemma demo_lib_low: "demo_lib = demo_lib\<lparr>sampler := (\<lambda>ts. demo_trial_low)\<rparr>"
  by (simp add: demo_lib_def)

lemma demo_world_writable: "writable demo_world p"
  by (simp add: demo_world_def)

section \<open>The value of a trial and the best trial\<close>

lemma np_mean_all_scored:
  assumes "those xs = Some vs" and "length xs = n" and "0 < n"
  shows "np_mean xs = Some (sum_list vs / real n)"
proof -
  have len: "\<And>vs. those xs = Some vs \<Longrightarrow> length vs = length xs"
    by (induction xs) (auto split: option.splits)
  from len [OF assms(1)] assms(2,3) have "vs \<noteq> []" "length vs = n" by auto
  with assms(1) show ?thesis by (simp add: np_mean_def)
qed

lemma foldl_best_maximal:
  assumes "\<forall>c \<in> set (t # ts). ft_value c \<noteq> None"
    and "c \<in> set (t # ts)" and "ft_value c = Some v"
    and "ft_value (foldl (\<lambda>b c. if better Maximize (ft_value c) (ft_value b) then c else b) t ts)
           = Some vr"
  shows "v \<le> vr"
  using assms
proof (induction ts arbitrary: t c v)
  case Nil
  then show ?case by simp
next
  case (Cons a ts)
  let ?t' = "if better Maximize (ft_value a) (ft_value t) then a else t"
  from Cons.prems(1) obtain vt va where vt: "ft_value t = Some vt" and va: "ft_value a = Some va"
    by auto
  obtain vt' where vt': "ft_value ?t' = Some vt'" using vt va by (cases "vt < va") auto
  have ge: "vt \<le> vt'" "va \<le> vt'" using vt va vt' by (auto split: if_splits)
  have all: "\<forall>c \<in> set (?t' # ts). ft_value c \<noteq> None" using Cons.prems(1) by auto
  have res: "ft_value (foldl (\<lambda>b c. if better Maximize (ft_value c) (ft_value b) then c else b) ?t' ts)
           = Some vr"
    using Cons.prems(4) by simp
  have top: "vt' \<le> vr"
    by (rule Cons.IH [OF all _ vt' res]) simp
  show ?case
  proof (cases "c \<in> set ts")
    case True
    then have "c \<in> set (?t' # ts)" by simp
    from Cons.IH [OF all this Cons.prems(3) res] show ?thesis .
  next
    case False
    with Cons.prems(2) have "c = t \<or> c = a" by auto
    with Cons.prems(3) vt va have "v = vt \<or> v = va" by auto
    with ge top show ?thesis by auto
  qed
qed

lemma best_trial_maximal:
  assumes "best_trial s = Inr b" and "direction s = Maximize"
    and "c \<in> set (trials s)" and "ft_value c = Some v" and "ft_value b = Some vb"
  shows "v \<le> vb"
proof -
  let ?done = "filter (\<lambda>t. ft_value t \<noteq> None) (trials s)"
  let ?pick = "\<lambda>b c. if better Maximize (ft_value c) (ft_value b) then c else b"
  from assms(1) obtain t ts where f: "?done = t # ts"
    and b0: "b = foldl (\<lambda>b c. if better (direction s) (ft_value c) (ft_value b) then c else b) t ts"
    by (auto simp: best_trial_def split: list.splits)
  have b: "b = foldl ?pick t ts"
    unfolding b0 assms(2) ..
  have "\<forall>c \<in> set ?done. ft_value c \<noteq> None" by simp
  then have all: "\<forall>c \<in> set (t # ts). ft_value c \<noteq> None"
    unfolding f .
  have "c \<in> set ?done" using assms(3,4) by simp
  then have mem: "c \<in> set (t # ts)" unfolding f .
  have res: "ft_value (foldl ?pick t ts) = Some vb"
    using assms(5) unfolding b .
  from foldl_best_maximal [OF all mem assms(4) res] show ?thesis .
qed

lemma demo_recall: "recall_score demo_labels [True, False, True, False] = Inr (2 / 3)"
  by (simp add: recall_score_def demo_labels_def tp_def fn_def prf_divide_def)

lemma demo_fold_recall:
  "fit_and_score demo_lib p (make_scorer RecallScore 2) ((demo_frame, demo_labels), (demo_frame, demo_labels))
     = (True, Some (2 / 3))"
  by (simp add: fit_and_score_def demo_lib_def apply_scorer_def make_scorer_def demo_predict demo_recall)

section \<open>The configuration of the searches\<close>

lemma configured_replicate [simp]:
  "list_all (configured beta) (replicate k (CrossValScore 5 (make_scorer FbetaScore beta)))"
  by (induction k) simp_all

lemma search_replicate [simp]:
  "filter is_search (replicate k (CrossValScore cv sc)) = replicate k (CrossValScore cv sc)"
  by (induction k) simp_all

lemma spec_search_configured:
  "io_spec (optimize L (create_study Maximize) (\<lambda>t. objective L t X y beta) 100)
     (\<lambda>r evs. list_all (configured beta) evs \<and> filter is_search evs = evs \<and>
        (\<forall>s. r = Inr s \<longrightarrow> evs = one_search beta))"
  by (rule spec_conseq [OF spec_optimize [where G = "\<lambda>ft. True", OF spec_objective_any]])
     (auto simp: create_study_def one_search_def)

lemma spec_experiment_configured:
  "io_spec (decision_tree_experiment L X_train y_train X_test y_test beta d m n)
     (\<lambda>r evs. list_all (configured beta) evs \<and>
        (r = Inr () \<longrightarrow> filter is_search evs = one_search beta))"
  unfolding decision_tree_experiment_def
  apply (rule spec_bind)
  apply (rule spec_conseq [OF spec_search_configured])
  apply (intro spec_bind spec_lift spec_emit spec_to_csv
          spec_compute_and_save_metrics spec_calculate_and_save_feature_importances
          spec_save_confusion_matrix spec_save_model allI impI conjI
        | simp split: sum.split)+
  done

lemma spec_run_configured:
  "io_spec (run_decision_tree L filepath)
     (\<lambda>r evs. list_all (configured 2) evs \<and>
        (r = Inr () \<longrightarrow>
           filter is_search evs = one_search 2 @ one_search 2 @ one_search 2 @ one_search 2))"
  unfolding run_decision_tree_def load_data_def
  apply (intro spec_bind spec_lift spec_conseq [OF spec_experiment_configured] allI impI conjI
        | simp split: sum.split prod.split)+
  done

lemma demo_run:
  "\<exists>w'. run_decision_tree demo_lib filepath demo_world = (Inr (), w')"
proof -
  let ?exp = "\<lambda>d n. decision_tree_experiment demo_lib demo_frame demo_labels demo_frame demo_labels 2
      d ''decision_tree'' n"
  have step: "\<And>w d n. (\<And>p. writable w p) \<Longrightarrow>
      \<exists>w'. ?exp d n w = (Inr (), w') \<and> (\<forall>p. writable w' p)"
    using demo_experiment [where ?t0.0 = demo_trial_low] demo_lib_low by metis
  obtain w1 where 1: "?exp ''decision_tree_experiment1'' ''1'' demo_world = (Inr (), w1)"
    and a1: "\<And>p. writable w1 p"
    using step [of demo_world] demo_world_writable by blast
  obtain w2 where 2: "?exp ''decision_tree_experiment2'' ''2'' w1 = (Inr (), w2)"
    and a2: "\<And>p. writable w2 p"
    using step [OF a1] by blast
  obtain w3 where 3: "?exp ''decision_tree_experiment3'' ''3'' w2 = (Inr (), w3)"
    and a3: "\<And>p. writable w3 p"
    using step [OF a2] by blast
  obtain w4 where 4: "?exp ''decision_tree_experiment4'' ''4'' w3 = (Inr (), w4)"
    using step [OF a3] by blast
  have data: "read_csv demo_lib filepath = Inr demo_frame"
    "create_experiment1_dataset demo_lib demo_frame = Inr (demo_frame, demo_frame, demo_labels, demo_labels)"
    "create_experiment2_dataset demo_lib demo_frame = Inr (demo_frame, demo_frame, demo_labels, demo_labels)"
    "create_experiment3_dataset demo_lib demo_frame = Inr (demo_frame, demo_frame, demo_labels, demo_labels)"
    "create_experiment4_dataset demo_lib demo_frame = Inr (demo_frame, demo_frame, demo_labels, demo_labels)"
    by (simp_all add: demo_lib_def)
  have "run_decision_tree demo_lib filepath demo_world = (Inr (), w4)"
    unfolding run_decision_tree_def load_data_def
    by (simp add: io_bind_def io_lift_def data 1 2 3 4)
  then show ?thesis ..
qed

section \<open>Runs with the same draws\<close>

lemma objective_same_library:
  assumes "kfold L1 = kfold L2" and "fit L1 = fit L2"
  shows "objective L1 t X y beta = objective L2 t X y beta"
proof -
  have fas: "fit_and_score L1 = fit_and_score L2"
    by (intro ext) (simp add: fit_and_score_def assms(2))
  have "cross_val_score L1 = cross_val_score L2"
    by (intro ext) (unfold cross_val_score_def assms(1) fas, rule refl)
  then show ?thesis by (simp add: objective_unfold)
qed

lemma run_trials_same_draws:
  assumes "\<forall>ts. length ts < bound \<longrightarrow> sampler L1 ts = sampler L2 ts"
    and "length ts + n \<le> bound"
  shows "run_trials L1 func n ts = run_trials L2 func n ts"
  using assms(2)
proof (induction n arbitrary: ts)
  case 0
  show ?case by simp
next
  case (Suc n)
  from Suc.prems have "length ts < bound" by simp
  with assms(1) have a: "ask L1 ts = ask L2 ts" by (simp add: ask_def)
  have cont: "(\<lambda>r. run_trials L1 func n (ts @ [\<lparr>ft_params = params (snd r), ft_value = fst r\<rparr>]))
      = (\<lambda>r. run_trials L2 func n (ts @ [\<lparr>ft_params = params (snd r), ft_value = fst r\<rparr>]))"
    using Suc.prems by (intro ext Suc.IH) simp
  show ?case unfolding run_trials.simps a cont ..
qed

lemma compute_and_save_metrics_same_library:
  assumes "cohen_kappa_score L1 = cohen_kappa_score L2"
    and "balanced_accuracy_score L1 = balanced_accuracy_score L2"
    and "average_precision_score L1 = average_precision_score L2"
  shows "compute_and_save_metrics L1 = compute_and_save_metrics L2"
  by (intro ext) (simp add: compute_and_save_metrics_def assms)

lemma demo_trials_differ: "demo_trial_low \<noteq> demo_trial_high"
proof
  assume "demo_trial_low = demo_trial_high"
  then have "draw_int demo_trial_low ''max_depth'' 1 50 = draw_int demo_trial_high ''max_depth'' 1 50"
    by simp
  then show False by (simp add: demo_trial_low_def demo_trial_high_def)
qed

section \<open>Runs that stop at a failing experiment\<close>

lemma run_decision_tree_calls:
  assumes "read_csv L filepath = Inr df"
    and "create_experiment1_dataset L df = Inr ds1"
    and "create_experiment2_dataset L df = Inr ds2"
    and "create_experiment3_dataset L df = Inr ds3"
    and "create_experiment4_dataset L df = Inr ds4"
  shows "run_decision_tree L filepath =
     io_bind (experiment_call L ds1 ''1'') (\<lambda>_.
     io_bind (experiment_call L ds2 ''2'') (\<lambda>_.
     io_bind (experiment_call L ds3 ''3'') (\<lambda>_.
       experiment_call L ds4 ''4'')))"
  unfolding run_decision_tree_def load_data_def experiment_call_def
  by (cases ds1; cases ds2; cases ds3; cases ds4) (simp add: assms)

lemma experiment_call_frame:
  assumes "experiment_call L ds number w = (r, w')"
  shows "\<exists>evs. extends w evs w'
           \<and> fst ` set (writes evs) \<subseteq> set (experiment_paths number)
           \<and> (r = Inr () \<longrightarrow> fst ` set (writes evs) = set (experiment_paths number))"
proof -
  obtain X_train X_test y_train y_test where ds: "ds = (X_train, X_test, y_train, y_test)"
    by (cases ds)
  let ?paths = "experiment_paths number"
  from assms ds have run: "decision_tree_experiment L X_train y_train X_test y_test 2
      (''decision_tree_experiment'' @ number) ''decision_tree'' number w = (r, w')"
    by (simp add: experiment_call_def)
  from io_specD [OF spec_experiment_writes run]
  obtain evs where ext: "extends w evs w'"
    and post: "case r of Inr _ \<Rightarrow> map fst (writes evs) = ?paths
                | Inl _ \<Rightarrow> length (writes evs) < 5 \<and>
                    map fst (writes evs) = take (length (writes evs)) ?paths"
    unfolding experiment_paths_def by blast
  have sub: "fst ` set (writes evs) \<subseteq> set ?paths"
  proof (cases r)
    case (Inl e)
    with post have "map fst (writes evs) = take (length (writes evs)) ?paths" by simp
    then have "set (map fst (writes evs)) \<subseteq> set ?paths" by (metis set_take_subset)
    then show ?thesis by simp
  next
    case (Inr u)
    with post have "map fst (writes evs) = ?paths" by simp
    then have "set (map fst (writes evs)) = set ?paths" by simp
    then show ?thesis by simp
  qed
  have all: "r = Inr () \<longrightarrow> fst ` set (writes evs) = set ?paths"
  proof
    assume "r = Inr ()"
    with post have "map fst (writes evs) = ?paths" by simp
    then have "set (map fst (writes evs)) = set ?paths" by simp
    then show "fst ` set (writes evs) = set ?paths" by simp
  qed
  from ext sub all show ?thesis by blast
qed

lemma experiment_paths_disjoint:
  assumes "a \<in> {''1'', ''2'', ''3'', ''4''}" and "b \<in> {''1'', ''2'', ''3'', ''4''}" and "a \<noteq> b"
  shows "set (experiment_paths a) \<inter> set (experiment_paths b) = {}"
  using assms by (auto simp: experiment_paths_def artifact_paths_def)

lemma kept_after:
  assumes "extends wa evs wb"
    and "fst ` set (writes evs) \<inter> set (experiment_paths number) = {}"
    and "\<forall>p \<in> set (experiment_paths number). files wa p \<noteq> None"
  shows "kept number wa wb"
  unfolding kept_def
proof
  fix p assume p: "p \<in> set (experiment_paths number)"
  with assms(2) have "p \<notin> fst ` set (writes evs)" by blast
  then have "apply_writes (writes evs) (files wa) p = files wa p" by (rule apply_writes_other)
  with assms(1) have "files wb p = files wa p" by (simp add: extends_def)
  with assms(3) p show "files wa p \<noteq> None \<and> files wb p = files wa p" by simp
qed

lemma unwritten_by:
  assumes "extends wa evs wb"
    and "fst ` set (writes evs) \<inter> set (experiment_paths number) = {}"
  shows "unwritten number wa wb"
  unfolding unwritten_def using assms by (auto simp: extends_def)

lemma written_after_success:
  assumes "extends wa evs wb" and "fst ` set (writes evs) = set (experiment_paths number)"
  shows "\<forall>p \<in> set (experiment_paths number). files wb p \<noteq> None"
proof
  fix p assume "p \<in> set (experiment_paths number)"
  with assms(2) have "p \<in> fst ` set (writes evs)" by simp
  then have "apply_writes (writes evs) (files wa) p \<noteq> None" by (rule apply_writes_written)
  with assms(1) show "files wb p \<noteq> None" by (simp add: extends_def)
qed

lemma paths_apart:
  "a \<in> {''1'', ''2'', ''3'', ''4''} \<Longrightarrow> b \<in> {''1'', ''2'', ''3'', ''4''} \<Longrightarrow> a \<noteq> b \<Longrightarrow>
   fst ` set (writes evs) \<subseteq> set (experiment_paths a) \<Longrightarrow>
   fst ` set (writes evs) \<inter> set (experiment_paths b) = {}"
  using experiment_paths_disjoint [of a b] by blast

lemma writes_of_both:
  "fst ` set (writes e1) \<inter> P = {} \<Longrightarrow> fst ` set (writes e2) \<inter> P = {} \<Longrightarrow>
   fst ` set (writes (e1 @ e2)) \<inter> P = {}"
  by (simp add: image_Un Int_Un_distrib2)

lemma demo_experiment_on:
  assumes ok: "\<And>p. p \<in> set (artifact_paths d m n) \<Longrightarrow> writable w p"
  shows "\<exists>w'. decision_tree_experiment demo_lib demo_frame demo_labels
               demo_frame demo_labels 2 d m n w = (Inr (), w')
           \<and> writable w' = writable w"
proof -
  let ?ft = "\<lparr>ft_params = suggested (demo_trial_low\<lparr>params := Map.empty\<rparr>), ft_value = Some (5 / 7)\<rparr>"
  have best: "best_trial \<lparr>direction = Maximize, trials = replicate 100 ?ft\<rparr> = Inr ?ft"
    by (rule best_trial_replicate [where v = "5 / 7"]) simp_all
  have conf: "\<exists>cm. confusion_matrix demo_labels [True, False, True, False] = Inr cm"
    by (simp add: confusion_matrix_def demo_labels_def Let_def)
  then obtain cm where cm: "confusion_matrix demo_labels [True, False, True, False] = Inr cm" ..
  have sc: "precision_score demo_labels [True, False, True, False] = Inr 1"
      "recall_score demo_labels [True, False, True, False] = Inr (2 / 3)"
    by (simp_all add: precision_score_def recall_score_def demo_labels_def tp_def fp_def fn_def prf_divide_def)
  have wr0: "writable w (''results/'' @ d @ ''/hyperparameters.csv'')"
    "writable w (''results/'' @ d @ ''/metrics.csv'')"
    "writable w (''results/'' @ d @ ''/feature_importances.csv'')"
    "writable w (''results/'' @ d @ ''/confusion_matrix.txt'')"
    "writable w (''models/'' @ m @ ''/'' @ n @ ''.joblib'')"
    by (rule ok, simp add: artifact_paths_def)+
  note wr = wr0 [simplified]
  have opt: "optimize demo_lib (create_study Maximize)
      (\<lambda>t. objective demo_lib t demo_frame demo_labels 2) 100 w =
     (Inr \<lparr>direction = Maximize, trials = replicate 100 ?ft\<rparr>,
      w\<lparr>trace := trace w @ Optimize Maximize 100 #
                 replicate 100 (CrossValScore 5 (make_scorer FbetaScore 2))\<rparr>)"
    using demo_optimize [of demo_trial_low w] demo_lib_low by metis
  show ?thesis
    apply (simp add: decision_tree_experiment_def)
    apply (subst io_bind_def)
    apply (simp add: opt best)
    apply (simp add: io_bind_def emit_def getitem_def suggested_def to_csv_def write_file_def wr)
    apply (simp add: demo_lib_def demo_predict io_lift_def)
    apply (simp add: compute_and_save_metrics_def sc demo_fbeta io_bind_def io_lift_def to_csv_def
             write_file_def wr wrote_def)
    apply (simp add: calculate_and_save_feature_importances_def demo_model_def demo_frame_def
             to_csv_def write_file_def wr wrote_def)
    apply (simp add: save_confusion_matrix_def cm io_bind_def io_lift_def savetxt_def write_file_def
             wr wrote_def save_model_def dump_def)
    done
qed

lemma demo_experiment_fails:
  assumes "\<not> writable w (''results/'' @ d @ ''/hyperparameters.csv'')"
  shows "\<exists>w'. decision_tree_experiment demo_lib demo_frame demo_labels
               demo_frame demo_labels 2 d m n w = (Inl OSError, w')"
proof -
  let ?ft = "\<lparr>ft_params = suggested (demo_trial_low\<lparr>params := Map.empty\<rparr>), ft_value = Some (5 / 7)\<rparr>"
  have best: "best_trial \<lparr>direction = Maximize, trials = replicate 100 ?ft\<rparr> = Inr ?ft"
    by (rule best_trial_replicate [where v = "5 / 7"]) simp_all
  note nw = assms [simplified]
  have opt: "optimize demo_lib (create_study Maximize)
      (\<lambda>t. objective demo_lib t demo_frame demo_labels 2) 100 w =
     (Inr \<lparr>direction = Maximize, trials = replicate 100 ?ft\<rparr>,
      w\<lparr>trace := trace w @ Optimize Maximize 100 #
                 replicate 100 (CrossValScore 5 (make_scorer FbetaScore 2))\<rparr>)"
    using demo_optimize [of demo_trial_low w] demo_lib_low by metis
  show ?thesis
    apply (simp add: decision_tree_experiment_def)
    apply (subst io_bind_def)
    apply (simp add: opt best)
    apply (simp add: io_bind_def io_lift_def emit_def getitem_def suggested_def to_csv_def
             write_file_def nw)
    done
qed

lemma demo_call_succeeds:
  assumes "\<And>p. p \<in> set (experiment_paths number) \<Longrightarrow> writable w p"
  shows "\<exists>w'. experiment_call demo_lib demo_dataset number w = (Inr (), w')
           \<and> writable w' = writable w"
  using demo_experiment_on [of "''decision_tree_experiment'' @ number" "''decision_tree''" number w]
    assms
  by (simp add: experiment_call_def demo_dataset_def experiment_paths_def)

lemma demo_call_fails:
  assumes "\<not> writable w (''results/decision_tree_experiment'' @ number @ ''/hyperparameters.csv'')"
  shows "\<exists>w'. experiment_call demo_lib demo_dataset number w = (Inl OSError, w')"
  using demo_experiment_fails [of w "''decision_tree_experiment'' @ number" "''decision_tree''" number]
    assms
  by (simp add: experiment_call_def demo_dataset_def)

lemma demo_without_writable:
  assumes "a \<in> {''1'', ''2'', ''3'', ''4''}" and "b \<in> {''1'', ''2'', ''3'', ''4''}" and "a \<noteq> b"
    and "p \<in> set (experiment_paths a)"
  shows "writable (demo_world_without b) p"
  using assms
  by (auto simp: demo_world_without_def demo_world_def experiment_paths_def artifact_paths_def)

lemma demo_without_unwritable:
  "\<not> writable (demo_world_without number)
       (''results/decision_tree_experiment'' @ number @ ''/hyperparameters.csv'')"
  by (simp add: demo_world_without_def)

lemma demo_call_chain:
  assumes "a \<in> {''1'', ''2'', ''3'', ''4''}" and "b \<in> {''1'', ''2'', ''3'', ''4''}" and "a \<noteq> b"
    and "writable w = writable (demo_world_without b)"
  shows "\<exists>w'. experiment_call demo_lib demo_dataset a w = (Inr (), w')
           \<and> writable w' = writable (demo_world_without b)"
proof -
  have "\<And>p. p \<in> set (experiment_paths a) \<Longrightarrow> writable w p"
    using demo_without_writable [OF assms(1-3)] assms(4) by simp
  from demo_call_succeeds [OF this] assms(4) show ?thesis by auto
qed

lemma demo_call_stops:
  assumes "writable w = writable (demo_world_without b)"
  shows "\<exists>w'. experiment_call demo_lib demo_dataset b w = (Inl OSError, w')"
  using demo_call_fails [of w b] demo_without_unwritable [of b] assms by simp

section \<open>The claims\<close>

text \<open>
  C1. Whatever the experiment, \<open>decision_tree_experiment\<close> writes to its five fixed
  paths and to no other: the paths it has written when it stops are an initial stretch of
  \<open>artifact_paths\<close> (hyperparameters, metrics, feature importances, confusion
  matrix, model), no other file changes, and a run that completes has written all five,
  which are five different paths.
\<close>

theorem experiment_writes_five_artifacts:
  assumes "decision_tree_experiment L X_train y_train X_test y_test beta experiment_dictionary
             model_directory experiment_number w = (r, w')"
  shows "\<exists>evs. trace w' = trace w @ evs
           \<and> map fst (writes evs) =
               take (length (writes evs))
                 (artifact_paths experiment_dictionary model_directory experiment_number)
           \<and> (r = Inr () \<longrightarrow>
                 map fst (writes evs) =
                   artifact_paths experiment_dictionary model_directory experiment_number)
           \<and> length (artifact_paths experiment_dictionary model_directory experiment_number) = 5
           \<and> distinct (artifact_paths experiment_dictionary model_directory experiment_number)
           \<and> (\<forall>p. p \<notin> fst ` set (writes evs) \<longrightarrow> files w' p = files w p)
           \<and> (\<forall>p. p \<in> fst ` set (writes evs) \<longrightarrow> files w' p \<noteq> None)"
proof -
  let ?paths = "artifact_paths experiment_dictionary model_directory experiment_number"
  from io_specD [OF spec_experiment_writes assms]
  obtain evs where ext: "extends w evs w'"
    and post: "case r of Inr _ \<Rightarrow> map fst (writes evs) = ?paths
                | Inl _ \<Rightarrow> length (writes evs) < 5 \<and>
                    map fst (writes evs) = take (length (writes evs)) ?paths"
    by blast
  from ext have tr: "trace w' = trace w @ evs"
    and fs: "files w' = apply_writes (writes evs) (files w)"
    by (simp_all add: extends_def)
  have five: "length ?paths = 5" "distinct ?paths"
    using artifact_paths_distinct by blast+
  have pre: "map fst (writes evs) = take (length (writes evs)) ?paths"
  proof (cases r)
    case (Inl e)
    with post show ?thesis by simp
  next
    case (Inr u)
    with post have eq: "map fst (writes evs) = ?paths" by simp
    then have "length (writes evs) = length ?paths" by (metis length_map)
    with eq show ?thesis by simp
  qed
  have all: "r = Inr () \<longrightarrow> map fst (writes evs) = ?paths"
    using post by auto
  have other: "\<forall>p. p \<notin> fst ` set (writes evs) \<longrightarrow> files w' p = files w p"
    using fs apply_writes_other by simp
  have written: "\<forall>p. p \<in> fst ` set (writes evs) \<longrightarrow> files w' p \<noteq> None"
    using fs apply_writes_written by simp
  from tr pre all five other written show ?thesis by blast
qed

theorem experiment_writes_five_artifacts_witness:
  "\<exists>w' evs. decision_tree_experiment demo_lib demo_frame demo_labels demo_frame demo_labels 2
        ''decision_tree_experiment1'' ''decision_tree'' ''1'' demo_world = (Inr (), w')
      \<and> trace w' = trace demo_world @ evs
      \<and> map fst (writes evs) =
          [''results/decision_tree_experiment1/hyperparameters.csv'',
           ''results/decision_tree_experiment1/metrics.csv'',
           ''results/decision_tree_experiment1/feature_importances.csv'',
           ''results/decision_tree_experiment1/confusion_matrix.txt'',
           ''models/decision_tree/1.joblib'']"
proof -
  have "demo_lib = demo_lib\<lparr>sampler := (\<lambda>ts. demo_trial_low)\<rparr>"
    by (simp add: demo_lib_def)
  moreover have "\<And>p. writable demo_world p" by (simp add: demo_world_def)
  ultimately obtain w' where run: "decision_tree_experiment demo_lib demo_frame demo_labels
      demo_frame demo_labels 2 ''decision_tree_experiment1'' ''decision_tree'' ''1'' demo_world
        = (Inr (), w')"
    using demo_experiment [of demo_world demo_trial_low "''decision_tree_experiment1''"
        "''decision_tree''" "''1''"] by metis
  from experiment_writes_five_artifacts [OF run]
  obtain evs where "trace w' = trace demo_world @ evs"
    and "map fst (writes evs) =
           artifact_paths ''decision_tree_experiment1'' ''decision_tree'' ''1''"
    by blast
  with run show ?thesis by (auto simp: artifact_paths_def)
qed

text \<open>
  C2. Every search that \<open>run_decision_tree\<close> starts is configured the same way: the
  study maximizes, \<^verbatim>\<open>optimize\<close> is asked for 100 trials, and every call of
  \<^verbatim>\<open>cross_val_score\<close> is 5-fold with the F-beta scorer for \<open>beta = 2\<close>. A run that
  completes has made exactly four such searches, each with one cross-validation per trial.
\<close>

theorem run_uses_fixed_configuration:
  assumes "run_decision_tree L filepath w = (r, w')"
  shows "\<exists>evs. trace w' = trace w @ evs
           \<and> list_all (configured 2) evs
           \<and> (r = Inr () \<longrightarrow> filter is_search evs = concat (replicate 4 (one_search 2)))"
proof -
  from io_specD [OF spec_run_configured assms]
  obtain evs where "extends w evs w'" and "list_all (configured 2) evs"
    and "r = Inr () \<longrightarrow>
           filter is_search evs = one_search 2 @ one_search 2 @ one_search 2 @ one_search 2"
    by blast
  moreover have "concat (replicate 4 (one_search 2))
      = one_search 2 @ one_search 2 @ one_search 2 @ one_search 2"
    by (simp add: eval_nat_numeral)
  ultimately show ?thesis by (auto simp: extends_def)
qed

theorem run_uses_fixed_configuration_witness:
  "\<exists>w' evs. run_decision_tree demo_lib ''data/ai4i2020.csv'' demo_world = (Inr (), w')
      \<and> trace w' = trace demo_world @ evs
      \<and> list_all (configured 2) evs
      \<and> filter is_search evs = concat (replicate 4 (one_search 2))"
proof -
  from demo_run obtain w' where
    run: "run_decision_tree demo_lib ''data/ai4i2020.csv'' demo_world = (Inr (), w')" ..
  from run_uses_fixed_configuration [OF run] obtain evs where
    "trace w' = trace demo_world @ evs" and "list_all (configured 2) evs"
    and "filter is_search evs = concat (replicate 4 (one_search 2))"
    by blast
  with run show ?thesis by blast
qed

text \<open>
  C3. The value of one trial is the mean, over the folds of the 5-fold split, of the
  F-beta score (with the given \<open>beta\<close>) of the scaler-plus-tree pipeline fitted on the
  fold; with five scored folds it is their sum divided by five. The search keeps a trial
  whose value no other completed trial exceeds, and it is this value, a mean F-beta
  score, that the script prints under the label "Best trial recall". On the example
  (see the witness) the printed value is the mean F-beta 5/7 while the mean recall of the
  same folds is 2/3.
\<close>

theorem search_maximizes_mean_fbeta:
  "(\<forall>v t' w'. objective L t X_train y_train beta w = (Inr (v, t'), w') \<longrightarrow>
      (\<exists>folds. kfold L 5 X_train y_train = Inr folds
         \<and> v = mean_fold_fbeta L (candidate t) beta folds
         \<and> (\<forall>scores. length folds = 5
               \<and> those (map (fold_fbeta L (candidate t) beta) folds) = Some scores \<longrightarrow>
               v = Some (sum_list scores / 5))))
   \<and> (\<forall>w'. decision_tree_experiment L X_train y_train X_test y_test beta
               experiment_dictionary model_directory experiment_number w = (Inr (), w') \<longrightarrow>
        (\<exists>s w1 b vb.
           optimize L (create_study Maximize) (\<lambda>t. objective L t X_train y_train beta) 100 w
             = (Inr s, w1)
           \<and> best_trial s = Inr b \<and> b \<in> set (trials s) \<and> ft_value b = Some vb
           \<and> (\<forall>c \<in> set (trials s). \<forall>v. ft_value c = Some v \<longrightarrow> v \<le> vb)
           \<and> (\<exists>t folds. ft_params b = suggested t \<and> kfold L 5 X_train y_train = Inr folds
                 \<and> Some vb = mean_fold_fbeta L (candidate t) beta folds)
           \<and> Printed ''Best trial recall: '' (Some vb) (ft_params b) \<in> set (trace w')))"
proof (intro conjI allI impI)
  fix v t' w'
  assume run: "objective L t X_train y_train beta w = (Inr (v, t'), w')"
  from io_specD [OF spec_objective run]
  obtain folds where k: "kfold L 5 X_train y_train = Inr folds"
    and v: "v = mean_fold_fbeta L (candidate t) beta folds"
    by auto
  have "\<forall>scores. length folds = 5
          \<and> those (map (fold_fbeta L (candidate t) beta) folds) = Some scores \<longrightarrow>
          v = Some (sum_list scores / 5)"
  proof (intro allI impI)
    fix scores
    assume a: "length folds = 5
          \<and> those (map (fold_fbeta L (candidate t) beta) folds) = Some scores"
    then have "np_mean (map (fold_fbeta L (candidate t) beta) folds)
        = Some (sum_list scores / real (5::nat))"
      by (intro np_mean_all_scored) simp_all
    with v show "v = Some (sum_list scores / 5)" by (simp add: mean_fold_fbeta_def)
  qed
  with k v show "\<exists>folds. kfold L 5 X_train y_train = Inr folds
         \<and> v = mean_fold_fbeta L (candidate t) beta folds
         \<and> (\<forall>scores. length folds = 5
               \<and> those (map (fold_fbeta L (candidate t) beta) folds) = Some scores \<longrightarrow>
               v = Some (sum_list scores / 5))"
    by blast
next
  fix w'
  assume run: "decision_tree_experiment L X_train y_train X_test y_test beta
               experiment_dictionary model_directory experiment_number w = (Inr (), w')"
  let ?G = "\<lambda>ft. \<exists>t folds. ft_params ft = suggested t \<and> kfold L 5 X_train y_train = Inr folds
                \<and> ft_value ft = mean_fold_fbeta L (candidate t) beta folds"
  have obj: "\<And>ts. io_spec (objective L (ask L ts) X_train y_train beta)
     (\<lambda>r evs. evs = [CrossValScore 5 (make_scorer FbetaScore beta)] \<and>
        (\<forall>a. r = Inr a \<longrightarrow> ?G \<lparr>ft_params = params (snd a), ft_value = fst a\<rparr>))"
    by (rule spec_conseq [OF spec_objective]) auto
  from obj run obtain s b v1 v2 v3 v4 model y_pred c2 c3 c4 where
    opt: "optimize L (create_study Maximize) (\<lambda>t. objective L t X_train y_train beta) 100 w =
       (Inr s, w\<lparr>trace := trace w @ Optimize Maximize 100 #
                    replicate 100 (CrossValScore 5 (make_scorer FbetaScore beta))\<rparr>)"
    and dir: "direction s = Maximize"
    and all: "list_all ?G (trials s)" and best: "best_trial s = Inr b"
    and w': "w' =
      wrote (''models/'' @ model_directory @ ''/'' @ experiment_number @ ''.joblib'') (Joblib model)
        (wrote (''results/'' @ experiment_dictionary @ ''/confusion_matrix.txt'') c4
          (wrote (''results/'' @ experiment_dictionary @ ''/feature_importances.csv'') c3
            (wrote (''results/'' @ experiment_dictionary @ ''/metrics.csv'') c2
              (wrote (''results/'' @ experiment_dictionary @ ''/hyperparameters.csv'')
                 (Csv [''max_depth'', ''min_samples_split'', ''min_samples_leaf'', ''class_weight'']
                    [[v1, v2, v3, v4]])
                 (w\<lparr>trace := trace w @ Optimize Maximize 100 #
                      replicate 100 (CrossValScore 5 (make_scorer FbetaScore beta)) @
                      [Printed ''Best trial recall: '' (ft_value b) (ft_params b)]\<rparr>)))))"
    by (rule experiment_success [where G = ?G])
  from best_trial_mem [OF best] obtain vb where mem: "b \<in> set (trials s)"
    and vb: "ft_value b = Some vb" by auto
  have max: "\<forall>c \<in> set (trials s). \<forall>v. ft_value c = Some v \<longrightarrow> v \<le> vb"
    using best_trial_maximal [OF best dir _ _ vb] by blast
  from mem all have "?G b" by (simp add: list_all_iff)
  with vb have fb: "\<exists>t folds. ft_params b = suggested t \<and> kfold L 5 X_train y_train = Inr folds
                 \<and> Some vb = mean_fold_fbeta L (candidate t) beta folds"
    by auto
  have pr: "Printed ''Best trial recall: '' (Some vb) (ft_params b) \<in> set (trace w')"
    unfolding w' by (simp add: trace_wrote vb)
  from opt best mem vb max fb pr
  show "\<exists>s w1 b vb.
           optimize L (create_study Maximize) (\<lambda>t. objective L t X_train y_train beta) 100 w
             = (Inr s, w1)
           \<and> best_trial s = Inr b \<and> b \<in> set (trials s) \<and> ft_value b = Some vb
           \<and> (\<forall>c \<in> set (trials s). \<forall>v. ft_value c = Some v \<longrightarrow> v \<le> vb)
           \<and> (\<exists>t folds. ft_params b = suggested t \<and> kfold L 5 X_train y_train = Inr folds
                 \<and> Some vb = mean_fold_fbeta L (candidate t) beta folds)
           \<and> Printed ''Best trial recall: '' (Some vb) (ft_params b) \<in> set (trace w')"
    by blast
qed

theorem search_maximizes_mean_fbeta_witness:
  "\<exists>t' w1 w' (b :: frozen_trial).
     objective demo_lib (ask demo_lib []) demo_frame demo_labels 2 demo_world = (Inr (Some (5 / 7), t'), w1)
     \<and> mean_fold_fbeta demo_lib (candidate (ask demo_lib [])) 2
          (replicate 5 ((demo_frame, demo_labels), (demo_frame, demo_labels))) = Some (5 / 7)
     \<and> decision_tree_experiment demo_lib demo_frame demo_labels demo_frame demo_labels 2
          ''decision_tree_experiment1'' ''decision_tree'' ''1'' demo_world = (Inr (), w')
     \<and> Printed ''Best trial recall: '' (Some (5 / 7)) (ft_params b) \<in> set (trace w')
     \<and> np_mean (map (\<lambda>f. snd (fit_and_score demo_lib (candidate (ask demo_lib []))
                                 (make_scorer RecallScore 2) f))
          (replicate 5 ((demo_frame, demo_labels), (demo_frame, demo_labels)))) = Some (2 / 3)"
proof -
  let ?fold = "((demo_frame, demo_labels), (demo_frame, demo_labels))"
  let ?t = "ask demo_lib []"
  let ?ft = "\<lparr>ft_params = suggested (demo_trial_low\<lparr>params := Map.empty\<rparr>), ft_value = Some (5 / 7)\<rparr>"
  have t: "?t = demo_trial_low\<lparr>params := Map.empty\<rparr>" by (simp add: ask_def demo_lib_def)
  obtain t' w1 where obj: "objective demo_lib ?t demo_frame demo_labels 2 demo_world
      = (Inr (Some (5 / 7), t'), w1)"
    using demo_objective [of "\<lambda>ts. demo_trial_low" demo_trial_low demo_world] demo_lib_low t
    by metis
  have folds: "kfold demo_lib 5 demo_frame demo_labels = Inr (replicate 5 ?fold)"
    by (simp add: demo_lib_def)
  obtain w' where run: "decision_tree_experiment demo_lib demo_frame demo_labels
      demo_frame demo_labels 2 ''decision_tree_experiment1'' ''decision_tree'' ''1'' demo_world
        = (Inr (), w')"
    using demo_experiment [of demo_world demo_trial_low "''decision_tree_experiment1''"
        "''decision_tree''" "''1''"] demo_lib_low demo_world_writable by metis
  have opt: "optimize demo_lib (create_study Maximize)
      (\<lambda>t. objective demo_lib t demo_frame demo_labels 2) 100 demo_world =
     (Inr \<lparr>direction = Maximize, trials = replicate 100 ?ft\<rparr>,
      demo_world\<lparr>trace := trace demo_world @ Optimize Maximize 100 #
                 replicate 100 (CrossValScore 5 (make_scorer FbetaScore 2))\<rparr>)"
    using demo_optimize [of demo_trial_low demo_world] demo_lib_low by metis
  have best: "best_trial \<lparr>direction = Maximize, trials = replicate 100 ?ft\<rparr> = Inr ?ft"
    by (rule best_trial_replicate [where v = "5 / 7"]) simp_all
  note inst = search_maximizes_mean_fbeta [of demo_lib ?t demo_frame demo_labels 2 demo_world
      demo_frame demo_labels "''decision_tree_experiment1''" "''decision_tree''" "''1''"]
  from inst obj folds
  have mean: "mean_fold_fbeta demo_lib (candidate ?t) 2 (replicate 5 ?fold) = Some (5 / 7)"
    by fastforce
  from inst run obtain s w2 b vb where
    o2: "optimize demo_lib (create_study Maximize)
        (\<lambda>t. objective demo_lib t demo_frame demo_labels 2) 100 demo_world = (Inr s, w2)"
    and b2: "best_trial s = Inr b" and v2: "ft_value b = Some vb"
    and pr: "Printed ''Best trial recall: '' (Some vb) (ft_params b) \<in> set (trace w')"
    by blast
  from o2 opt have "s = \<lparr>direction = Maximize, trials = replicate 100 ?ft\<rparr>" by simp
  with b2 best have "b = ?ft" by simp
  with v2 have "vb = 5 / 7" by simp
  with pr have printed: "Printed ''Best trial recall: '' (Some (5 / 7)) (ft_params b) \<in> set (trace w')"
    by simp
  have recall: "np_mean (map (\<lambda>f. snd (fit_and_score demo_lib (candidate ?t)
                                 (make_scorer RecallScore 2) f)) (replicate 5 ?fold)) = Some (2 / 3)"
    by (simp add: demo_fold_recall np_mean_replicate5)
  show ?thesis
    apply (intro exI conjI)
        apply (rule obj)
       apply (rule mean)
      apply (rule run)
     apply (rule printed)
    apply (rule recall)
    done
qed

text \<open>
  C4. As stated the claim fails: nothing seeds the sampler of the search or the tree
  learner, so two runs of \<open>decision_tree_experiment\<close> on the same data, in the same
  world, can save different best hyperparameters (the counterexample: two libraries that
  differ only in what the sampler draws). What holds: two runs on equal inputs in which
  the sampler draws the same candidates in each of the 100 trials, and the splitter, the
  fits and the scores come out the same, end with the same result, the same files and the
  same trace; what the sampler would draw after the hundredth trial does not matter.
\<close>

theorem experiment_determined_by_draws:
  assumes "\<forall>ts. length ts < 100 \<longrightarrow> sampler L1 ts = sampler L2 ts"
    and "kfold L1 = kfold L2" and "fit L1 = fit L2"
    and "cohen_kappa_score L1 = cohen_kappa_score L2"
    and "balanced_accuracy_score L1 = balanced_accuracy_score L2"
    and "average_precision_score L1 = average_precision_score L2"
  shows "decision_tree_experiment L1 X_train y_train X_test y_test beta experiment_dictionary
           model_directory experiment_number w
       = decision_tree_experiment L2 X_train y_train X_test y_test beta experiment_dictionary
           model_directory experiment_number w"
proof -
  have obj: "(\<lambda>t. objective L1 t X_train y_train beta) = (\<lambda>t. objective L2 t X_train y_train beta)"
    by (rule ext) (rule objective_same_library [OF assms(2,3)])
  have "run_trials L1 (\<lambda>t. objective L2 t X_train y_train beta) 100 []
      = run_trials L2 (\<lambda>t. objective L2 t X_train y_train beta) 100 []"
    using assms(1) by (rule run_trials_same_draws) simp
  then have search: "optimize L1 (create_study Maximize) (\<lambda>t. objective L1 t X_train y_train beta) 100
      = optimize L2 (create_study Maximize) (\<lambda>t. objective L2 t X_train y_train beta) 100"
    by (simp add: optimize_def obj create_study_def)
  show ?thesis
    unfolding decision_tree_experiment_def search assms(3)
      compute_and_save_metrics_same_library [OF assms(4-6)] ..
qed

theorem experiment_determined_by_draws_witness:
  "sampler demo_lib_late \<noteq> sampler demo_lib
   \<and> decision_tree_experiment demo_lib demo_frame demo_labels demo_frame demo_labels 2
       ''decision_tree_experiment1'' ''decision_tree'' ''1'' demo_world
     = decision_tree_experiment demo_lib_late demo_frame demo_labels demo_frame demo_labels 2
       ''decision_tree_experiment1'' ''decision_tree'' ''1'' demo_world"
proof -
  have draws: "\<forall>ts. length ts < 100 \<longrightarrow> sampler demo_lib ts = sampler demo_lib_late ts"
    by (simp add: demo_lib_late_def demo_lib_def)
  have same: "kfold demo_lib = kfold demo_lib_late" "fit demo_lib = fit demo_lib_late"
    "cohen_kappa_score demo_lib = cohen_kappa_score demo_lib_late"
    "balanced_accuracy_score demo_lib = balanced_accuracy_score demo_lib_late"
    "average_precision_score demo_lib = average_precision_score demo_lib_late"
    by (simp_all add: demo_lib_late_def)
  have "sampler demo_lib_late (replicate 100 \<lparr>ft_params = Map.empty, ft_value = None\<rparr>)
      \<noteq> sampler demo_lib (replicate 100 \<lparr>ft_params = Map.empty, ft_value = None\<rparr>)"
    using demo_trials_differ by (simp add: demo_lib_late_def demo_lib_def)
  then have differ: "sampler demo_lib_late \<noteq> sampler demo_lib" by metis
  from experiment_determined_by_draws [OF draws same] differ show ?thesis by blast
qed

theorem experiment_deterministic_counterexample:
  "files (snd (decision_tree_experiment demo_lib demo_frame demo_labels demo_frame demo_labels 2
       ''decision_tree_experiment1'' ''decision_tree'' ''1'' demo_world))
     ''results/decision_tree_experiment1/hyperparameters.csv''
   \<noteq> files (snd (decision_tree_experiment demo_lib_high demo_frame demo_labels demo_frame demo_labels 2
       ''decision_tree_experiment1'' ''decision_tree'' ''1'' demo_world))
     ''results/decision_tree_experiment1/hyperparameters.csv''"
proof -
  from demo_experiment [of demo_world demo_trial_low "''decision_tree_experiment1''"
      "''decision_tree''" "''1''"] demo_world_writable
  obtain w1 where "decision_tree_experiment (demo_lib\<lparr>sampler := (\<lambda>ts. demo_trial_low)\<rparr>)
        demo_frame demo_labels demo_frame demo_labels 2
        ''decision_tree_experiment1'' ''decision_tree'' ''1'' demo_world = (Inr (), w1)"
    and "files w1 (''results/'' @ ''decision_tree_experiment1'' @ ''/hyperparameters.csv'') =
      Some (Csv [''max_depth'', ''min_samples_split'', ''min_samples_leaf'', ''class_weight'']
                [[PInt (draw_int demo_trial_low ''max_depth'' 1 50),
                  PFloat (draw_float demo_trial_low ''min_samples_split'' 0.001 1),
                  PFloat (draw_float demo_trial_low ''min_samples_leaf'' 0.001 0.5),
                  draw_categorical demo_trial_low ''class_weight'' [PNone, PStr ''balanced'']]])"
    by blast
  then have low: "files (snd (decision_tree_experiment demo_lib demo_frame demo_labels demo_frame
       demo_labels 2 ''decision_tree_experiment1'' ''decision_tree'' ''1'' demo_world))
     ''results/decision_tree_experiment1/hyperparameters.csv''
     = Some (Csv [''max_depth'', ''min_samples_split'', ''min_samples_leaf'', ''class_weight'']
          [[PInt 1, PFloat 0.001, PFloat 0.001, PNone]])"
    using demo_lib_low by (simp add: demo_trial_low_def)
  from demo_experiment [of demo_world demo_trial_high "''decision_tree_experiment1''"
      "''decision_tree''" "''1''"] demo_world_writable
  obtain w2 where "decision_tree_experiment (demo_lib\<lparr>sampler := (\<lambda>ts. demo_trial_high)\<rparr>)
        demo_frame demo_labels demo_frame demo_labels 2
        ''decision_tree_experiment1'' ''decision_tree'' ''1'' demo_world = (Inr (), w2)"
    and "files w2 (''results/'' @ ''decision_tree_experiment1'' @ ''/hyperparameters.csv'') =
      Some (Csv [''max_depth'', ''min_samples_split'', ''min_samples_leaf'', ''class_weight'']
                [[PInt (draw_int demo_trial_high ''max_depth'' 1 50),
                  PFloat (draw_float demo_trial_high ''min_samples_split'' 0.001 1),
                  PFloat (draw_float demo_trial_high ''min_samples_leaf'' 0.001 0.5),
                  draw_categorical demo_trial_high ''class_weight'' [PNone, PStr ''balanced'']]])"
    by blast
  then have high: "files (snd (decision_tree_experiment demo_lib_high demo_frame demo_labels demo_frame
       demo_labels 2 ''decision_tree_experiment1'' ''decision_tree'' ''1'' demo_world))
     ''results/decision_tree_experiment1/hyperparameters.csv''
     = Some (Csv [''max_depth'', ''min_samples_split'', ''min_samples_leaf'', ''class_weight'']
          [[PInt 50, PFloat 1, PFloat 0.5, PNone]])"
    by (simp add: demo_lib_high_def demo_trial_high_def)
  from low high show ?thesis by simp
qed

text \<open>
  C5. \<open>run_decision_tree\<close> catches nothing. Once the data are loaded and the four
  datasets made, an exception raised by experiment \<open>k\<close> is the result of the run, and
  the run ends in the world that experiment left: the artifacts of the experiments before
  \<open>k\<close> are on disk exactly as they were written, and nothing has been written to a
  path of a later experiment. The four conjuncts are \<open>k = 1, 2, 3, 4\<close>; the second is
  the case of the spec, a failure in experiment 2.
\<close>

theorem failing_experiment_aborts_run:
  assumes "read_csv L filepath = Inr df"
    and "create_experiment1_dataset L df = Inr ds1"
    and "create_experiment2_dataset L df = Inr ds2"
    and "create_experiment3_dataset L df = Inr ds3"
    and "create_experiment4_dataset L df = Inr ds4"
  shows "(\<forall>e w1. experiment_call L ds1 ''1'' w = (Inl e, w1) \<longrightarrow>
            run_decision_tree L filepath w = (Inl e, w1)
            \<and> unwritten ''2'' w w1 \<and> unwritten ''3'' w w1 \<and> unwritten ''4'' w w1)
       \<and> (\<forall>e w1 w2. experiment_call L ds1 ''1'' w = (Inr (), w1)
              \<and> experiment_call L ds2 ''2'' w1 = (Inl e, w2) \<longrightarrow>
            run_decision_tree L filepath w = (Inl e, w2)
            \<and> kept ''1'' w1 w2 \<and> unwritten ''3'' w w2 \<and> unwritten ''4'' w w2)
       \<and> (\<forall>e w1 w2 w3. experiment_call L ds1 ''1'' w = (Inr (), w1)
              \<and> experiment_call L ds2 ''2'' w1 = (Inr (), w2)
              \<and> experiment_call L ds3 ''3'' w2 = (Inl e, w3) \<longrightarrow>
            run_decision_tree L filepath w = (Inl e, w3)
            \<and> kept ''1'' w1 w3 \<and> kept ''2'' w2 w3 \<and> unwritten ''4'' w w3)
       \<and> (\<forall>e w1 w2 w3 w4. experiment_call L ds1 ''1'' w = (Inr (), w1)
              \<and> experiment_call L ds2 ''2'' w1 = (Inr (), w2)
              \<and> experiment_call L ds3 ''3'' w2 = (Inr (), w3)
              \<and> experiment_call L ds4 ''4'' w3 = (Inl e, w4) \<longrightarrow>
            run_decision_tree L filepath w = (Inl e, w4)
            \<and> kept ''1'' w1 w4 \<and> kept ''2'' w2 w4 \<and> kept ''3'' w3 w4)"
proof -
  note calls = run_decision_tree_calls [OF assms]
  have first: "run_decision_tree L filepath w = (Inl e, w1)
            \<and> unwritten ''2'' w w1 \<and> unwritten ''3'' w w1 \<and> unwritten ''4'' w w1"
    if r1: "experiment_call L ds1 ''1'' w = (Inl e, w1)" for e w1
  proof -
    from experiment_call_frame [OF r1] obtain e1 where x1: "extends w e1 w1"
      and s1: "fst ` set (writes e1) \<subseteq> set (experiment_paths ''1'')" by blast
    have "run_decision_tree L filepath w = (Inl e, w1)"
      by (simp add: calls io_bind_def r1)
    moreover have "unwritten ''2'' w w1"
      by (rule unwritten_by [OF x1], rule paths_apart [OF _ _ _ s1]) simp_all
    moreover have "unwritten ''3'' w w1"
      by (rule unwritten_by [OF x1], rule paths_apart [OF _ _ _ s1]) simp_all
    moreover have "unwritten ''4'' w w1"
      by (rule unwritten_by [OF x1], rule paths_apart [OF _ _ _ s1]) simp_all
    ultimately show ?thesis by blast
  qed
  have second: "run_decision_tree L filepath w = (Inl e, w2)
            \<and> kept ''1'' w1 w2 \<and> unwritten ''3'' w w2 \<and> unwritten ''4'' w w2"
    if r1: "experiment_call L ds1 ''1'' w = (Inr (), w1)"
      and r2: "experiment_call L ds2 ''2'' w1 = (Inl e, w2)" for e w1 w2
  proof -
    from experiment_call_frame [OF r1] obtain e1 where x1: "extends w e1 w1"
      and s1: "fst ` set (writes e1) \<subseteq> set (experiment_paths ''1'')"
      and a1: "fst ` set (writes e1) = set (experiment_paths ''1'')" by blast
    from experiment_call_frame [OF r2] obtain e2 where x2: "extends w1 e2 w2"
      and s2: "fst ` set (writes e2) \<subseteq> set (experiment_paths ''2'')" by blast
    have x12: "extends w (e1 @ e2) w2" using x1 x2 by (rule extends_trans)
    have "run_decision_tree L filepath w = (Inl e, w2)"
      by (simp add: calls io_bind_def r1 r2)
    moreover have "kept ''1'' w1 w2"
      by (rule kept_after [OF x2 _ written_after_success [OF x1 a1]],
          rule paths_apart [OF _ _ _ s2]) simp_all
    moreover have "unwritten ''3'' w w2"
      by (rule unwritten_by [OF x12], rule writes_of_both,
          rule paths_apart [OF _ _ _ s1], simp, simp, simp,
          rule paths_apart [OF _ _ _ s2]) simp_all
    moreover have "unwritten ''4'' w w2"
      by (rule unwritten_by [OF x12], rule writes_of_both,
          rule paths_apart [OF _ _ _ s1], simp, simp, simp,
          rule paths_apart [OF _ _ _ s2]) simp_all
    ultimately show ?thesis by blast
  qed
  have third: "run_decision_tree L filepath w = (Inl e, w3)
            \<and> kept ''1'' w1 w3 \<and> kept ''2'' w2 w3 \<and> unwritten ''4'' w w3"
    if r1: "experiment_call L ds1 ''1'' w = (Inr (), w1)"
      and r2: "experiment_call L ds2 ''2'' w1 = (Inr (), w2)"
      and r3: "experiment_call L ds3 ''3'' w2 = (Inl e, w3)" for e w1 w2 w3
  proof -
    from experiment_call_frame [OF r1] obtain e1 where x1: "extends w e1 w1"
      and s1: "fst ` set (writes e1) \<subseteq> set (experiment_paths ''1'')"
      and a1: "fst ` set (writes e1) = set (experiment_paths ''1'')" by blast
    from experiment_call_frame [OF r2] obtain e2 where x2: "extends w1 e2 w2"
      and s2: "fst ` set (writes e2) \<subseteq> set (experiment_paths ''2'')"
      and a2: "fst ` set (writes e2) = set (experiment_paths ''2'')" by blast
    from experiment_call_frame [OF r3] obtain e3 where x3: "extends w2 e3 w3"
      and s3: "fst ` set (writes e3) \<subseteq> set (experiment_paths ''3'')" by blast
    have x23: "extends w1 (e2 @ e3) w3" using x2 x3 by (rule extends_trans)
    have x123: "extends w (e1 @ e2 @ e3) w3" using x1 x23 by (rule extends_trans)
    have "run_decision_tree L filepath w = (Inl e, w3)"
      by (simp add: calls io_bind_def r1 r2 r3)
    moreover have "kept ''1'' w1 w3"
      by (rule kept_after [OF x23 _ written_after_success [OF x1 a1]], rule writes_of_both,
          rule paths_apart [OF _ _ _ s2], simp, simp, simp,
          rule paths_apart [OF _ _ _ s3]) simp_all
    moreover have "kept ''2'' w2 w3"
      by (rule kept_after [OF x3 _ written_after_success [OF x2 a2]],
          rule paths_apart [OF _ _ _ s3]) simp_all
    moreover have "unwritten ''4'' w w3"
      by (rule unwritten_by [OF x123], rule writes_of_both,
          rule paths_apart [OF _ _ _ s1], simp, simp, simp, rule writes_of_both,
          rule paths_apart [OF _ _ _ s2], simp, simp, simp,
          rule paths_apart [OF _ _ _ s3]) simp_all
    ultimately show ?thesis by blast
  qed
  have fourth: "run_decision_tree L filepath w = (Inl e, w4)
            \<and> kept ''1'' w1 w4 \<and> kept ''2'' w2 w4 \<and> kept ''3'' w3 w4"
    if r1: "experiment_call L ds1 ''1'' w = (Inr (), w1)"
      and r2: "experiment_call L ds2 ''2'' w1 = (Inr (), w2)"
      and r3: "experiment_call L ds3 ''3'' w2 = (Inr (), w3)"
      and r4: "experiment_call L ds4 ''4'' w3 = (Inl e, w4)" for e w1 w2 w3 w4
  proof -
    from experiment_call_frame [OF r1] obtain e1 where x1: "extends w e1 w1"
      and a1: "fst ` set (writes e1) = set (experiment_paths ''1'')" by blast
    from experiment_call_frame [OF r2] obtain e2 where x2: "extends w1 e2 w2"
      and s2: "fst ` set (writes e2) \<subseteq> set (experiment_paths ''2'')"
      and a2: "fst ` set (writes e2) = set (experiment_paths ''2'')" by blast
    from experiment_call_frame [OF r3] obtain e3 where x3: "extends w2 e3 w3"
      and s3: "fst ` set (writes e3) \<subseteq> set (experiment_paths ''3'')"
      and a3: "fst ` set (writes e3) = set (experiment_paths ''3'')" by blast
    from experiment_call_frame [OF r4] obtain e4 where x4: "extends w3 e4 w4"
      and s4: "fst ` set (writes e4) \<subseteq> set (experiment_paths ''4'')" by blast
    have x34: "extends w2 (e3 @ e4) w4" using x3 x4 by (rule extends_trans)
    have x234: "extends w1 (e2 @ e3 @ e4) w4" using x2 x34 by (rule extends_trans)
    have "run_decision_tree L filepath w = (Inl e, w4)"
      by (simp add: calls io_bind_def r1 r2 r3 r4)
    moreover have "kept ''1'' w1 w4"
      by (rule kept_after [OF x234 _ written_after_success [OF x1 a1]], rule writes_of_both,
          rule paths_apart [OF _ _ _ s2], simp, simp, simp, rule writes_of_both,
          rule paths_apart [OF _ _ _ s3], simp, simp, simp,
          rule paths_apart [OF _ _ _ s4]) simp_all
    moreover have "kept ''2'' w2 w4"
      by (rule kept_after [OF x34 _ written_after_success [OF x2 a2]], rule writes_of_both,
          rule paths_apart [OF _ _ _ s3], simp, simp, simp,
          rule paths_apart [OF _ _ _ s4]) simp_all
    moreover have "kept ''3'' w3 w4"
      by (rule kept_after [OF x4 _ written_after_success [OF x3 a3]],
          rule paths_apart [OF _ _ _ s4]) simp_all
    ultimately show ?thesis by blast
  qed
  from first second third fourth show ?thesis by blast
qed

theorem failing_experiment_aborts_run_witness:
  "(\<exists>w1. run_decision_tree demo_lib ''data/ai4i2020.csv'' (demo_world_without ''1'') = (Inl OSError, w1)
       \<and> unwritten ''2'' (demo_world_without ''1'') w1
       \<and> unwritten ''3'' (demo_world_without ''1'') w1
       \<and> unwritten ''4'' (demo_world_without ''1'') w1)
   \<and> (\<exists>w1 w2. experiment_call demo_lib demo_dataset ''1'' (demo_world_without ''2'') = (Inr (), w1)
       \<and> run_decision_tree demo_lib ''data/ai4i2020.csv'' (demo_world_without ''2'') = (Inl OSError, w2)
       \<and> kept ''1'' w1 w2
       \<and> unwritten ''3'' (demo_world_without ''2'') w2
       \<and> unwritten ''4'' (demo_world_without ''2'') w2)
   \<and> (\<exists>w1 w2 w3. experiment_call demo_lib demo_dataset ''1'' (demo_world_without ''3'') = (Inr (), w1)
       \<and> experiment_call demo_lib demo_dataset ''2'' w1 = (Inr (), w2)
       \<and> run_decision_tree demo_lib ''data/ai4i2020.csv'' (demo_world_without ''3'') = (Inl OSError, w3)
       \<and> kept ''1'' w1 w3 \<and> kept ''2'' w2 w3
       \<and> unwritten ''4'' (demo_world_without ''3'') w3)
   \<and> (\<exists>w1 w2 w3 w4. experiment_call demo_lib demo_dataset ''1'' (demo_world_without ''4'') = (Inr (), w1)
       \<and> experiment_call demo_lib demo_dataset ''2'' w1 = (Inr (), w2)
       \<and> experiment_call demo_lib demo_dataset ''3'' w2 = (Inr (), w3)
       \<and> run_decision_tree demo_lib ''data/ai4i2020.csv'' (demo_world_without ''4'') = (Inl OSError, w4)
       \<and> kept ''1'' w1 w4 \<and> kept ''2'' w2 w4 \<and> kept ''3'' w3 w4)"
proof -
  have data: "read_csv demo_lib ''data/ai4i2020.csv'' = Inr demo_frame"
    "create_experiment1_dataset demo_lib demo_frame = Inr demo_dataset"
    "create_experiment2_dataset demo_lib demo_frame = Inr demo_dataset"
    "create_experiment3_dataset demo_lib demo_frame = Inr demo_dataset"
    "create_experiment4_dataset demo_lib demo_frame = Inr demo_dataset"
    by (simp_all add: demo_lib_def demo_dataset_def)
  note inst = failing_experiment_aborts_run [OF data]
  have one: "\<exists>w1. run_decision_tree demo_lib ''data/ai4i2020.csv'' (demo_world_without ''1'') = (Inl OSError, w1)
       \<and> unwritten ''2'' (demo_world_without ''1'') w1
       \<and> unwritten ''3'' (demo_world_without ''1'') w1
       \<and> unwritten ''4'' (demo_world_without ''1'') w1"
  proof -
    obtain w1 where "experiment_call demo_lib demo_dataset ''1'' (demo_world_without ''1'') = (Inl OSError, w1)"
      using demo_call_stops [of "demo_world_without ''1''" "''1''"] by auto
    with inst [of "demo_world_without ''1''"] show ?thesis by blast
  qed
  have two: "\<exists>w1 w2. experiment_call demo_lib demo_dataset ''1'' (demo_world_without ''2'') = (Inr (), w1)
       \<and> run_decision_tree demo_lib ''data/ai4i2020.csv'' (demo_world_without ''2'') = (Inl OSError, w2)
       \<and> kept ''1'' w1 w2
       \<and> unwritten ''3'' (demo_world_without ''2'') w2
       \<and> unwritten ''4'' (demo_world_without ''2'') w2"
  proof -
    obtain w1 where r1: "experiment_call demo_lib demo_dataset ''1'' (demo_world_without ''2'') = (Inr (), w1)"
      and a1: "writable w1 = writable (demo_world_without ''2'')"
      using demo_call_chain [of "''1''" "''2''" "demo_world_without ''2''"] by auto
    obtain w2 where r2: "experiment_call demo_lib demo_dataset ''2'' w1 = (Inl OSError, w2)"
      using demo_call_stops [OF a1] by auto
    from inst [of "demo_world_without ''2''"] r1 r2 show ?thesis by blast
  qed
  have three: "\<exists>w1 w2 w3. experiment_call demo_lib demo_dataset ''1'' (demo_world_without ''3'') = (Inr (), w1)
       \<and> experiment_call demo_lib demo_dataset ''2'' w1 = (Inr (), w2)
       \<and> run_decision_tree demo_lib ''data/ai4i2020.csv'' (demo_world_without ''3'') = (Inl OSError, w3)
       \<and> kept ''1'' w1 w3 \<and> kept ''2'' w2 w3
       \<and> unwritten ''4'' (demo_world_without ''3'') w3"
  proof -
    obtain w1 where r1: "experiment_call demo_lib demo_dataset ''1'' (demo_world_without ''3'') = (Inr (), w1)"
      and a1: "writable w1 = writable (demo_world_without ''3'')"
      using demo_call_chain [of "''1''" "''3''" "demo_world_without ''3''"] by auto
    obtain w2 where r2: "experiment_call demo_lib demo_dataset ''2'' w1 = (Inr (), w2)"
      and a2: "writable w2 = writable (demo_world_without ''3'')"
      using demo_call_chain [of "''2''" "''3''" w1] a1 by auto
    obtain w3 where r3: "experiment_call demo_lib demo_dataset ''3'' w2 = (Inl OSError, w3)"
      using demo_call_stops [OF a2] by auto
    from inst [of "demo_world_without ''3''"] r1 r2 r3 show ?thesis by blast
  qed
  have four: "\<exists>w1 w2 w3 w4. experiment_call demo_lib demo_dataset ''1'' (demo_world_without ''4'') = (Inr (), w1)
       \<and> experiment_call demo_lib demo_dataset ''2'' w1 = (Inr (), w2)
       \<and> experiment_call demo_lib demo_dataset ''3'' w2 = (Inr (), w3)
       \<and> run_decision_tree demo_lib ''data/ai4i2020.csv'' (demo_world_without ''4'') = (Inl OSError, w4)
       \<and> kept ''1'' w1 w4 \<and> kept ''2'' w2 w4 \<and> kept ''3'' w3 w4"
  proof -
    obtain w1 where r1: "experiment_call demo_lib demo_dataset ''1'' (demo_world_without ''4'') = (Inr (), w1)"
      and a1: "writable w1 = writable (demo_world_without ''4'')"
      using demo_call_chain [of "''1''" "''4''" "demo_world_without ''4''"] by auto
    obtain w2 where r2: "experiment_call demo_lib demo_dataset ''2'' w1 = (Inr (), w2)"
      and a2: "writable w2 = writable (demo_world_without ''4'')"
      using demo_call_chain [of "''2''" "''4''" w1] a1 by auto
    obtain w3 where r3: "experiment_call demo_lib demo_dataset ''3'' w2 = (Inr (), w3)"
      and a3: "writable w3 = writable (demo_world_without ''4'')"
      using demo_call_chain [of "''3''" "''4''" w2] a2 by auto
    obtain w4 where r4: "experiment_call demo_lib demo_dataset ''4'' w3 = (Inl OSError, w4)"
      using demo_call_stops [OF a3] by auto
    from inst [of "demo_world_without ''4''"] r1 r2 r3 r4 show ?thesis by blast
  qed
  from one two three four show ?thesis by blast
qed

text \<open>
  C6. For every binary label vector with at least one positive label (so it is not
  empty), \<open>compute_and_save_metrics\<close> called with \<open>y_pred\<close> equal to \<open>y_true\<close>
  writes precision, recall and F-beta equal to \<open>1.0\<close>, and the confusion matrix that
  \<open>save_confusion_matrix\<close> writes for the same pair has zeros everywhere off the
  diagonal. The three scores the claim does not speak of are whatever the library returns;
  \<open>beta\<close> is one the library accepts.
\<close>

theorem perfect_prediction_metrics:
  assumes "True \<in> set y" and "0 \<le> beta"
    and "cohen_kappa_score L y y = Inr kappa"
    and "balanced_accuracy_score L y y = Inr ba"
    and "average_precision_score L y y = Inr ap"
    and "writable w save_path" and "writable w2 filename"
  shows "compute_and_save_metrics L y y beta save_path w =
           (Inr (),
            wrote save_path
              (Csv metrics_names
                 [[PFloat 1, PFloat 1, PFloat 1, pfloat kappa, pfloat ba, pfloat ap]]) w)
         \<and> (\<exists>cm. save_confusion_matrix y y filename w2 = (Inr (), wrote filename (Matrix cm) w2)
                \<and> (\<forall>i < length cm. \<forall>j < length cm. i \<noteq> j \<longrightarrow> cm ! i ! j = 0))"
proof -
  have row: "compute_and_save_metrics L y y beta save_path w =
           (Inr (),
            wrote save_path
              (Csv metrics_names
                 [[PFloat 1, PFloat 1, PFloat 1, pfloat kappa, pfloat ba, pfloat ap]]) w)"
    using assms(3-6) perfect_scores [OF assms(1)] assms(2)
    by (intro compute_and_save_metrics_row) simp_all
  obtain cm where cm: "confusion_matrix y y = Inr cm"
    by (simp add: confusion_matrix_def Let_def)
  have saved: "save_confusion_matrix y y filename w2 = (Inr (), wrote filename (Matrix cm) w2)"
    using assms(7) by (simp add: save_confusion_matrix_def cm savetxt_def write_file_writable)
  have diag: "\<forall>i < length cm. \<forall>j < length cm. i \<noteq> j \<longrightarrow> cm ! i ! j = 0"
    using diagonal_grid [OF cm] by blast
  from row saved diag show ?thesis by blast
qed

theorem perfect_prediction_metrics_witness:
  "True \<in> set [True, False, True] \<and> (0::real) \<le> 2
   \<and> cohen_kappa_score demo_lib [True, False, True] [True, False, True] = Inr None
   \<and> balanced_accuracy_score demo_lib [True, False, True] [True, False, True] = Inr (Some (1 / 2))
   \<and> average_precision_score demo_lib [True, False, True] [True, False, True] = Inr (Some (3 / 4))
   \<and> writable demo_world ''metrics.csv'' \<and> writable demo_world ''confusion_matrix.txt''
   \<and> compute_and_save_metrics demo_lib [True, False, True] [True, False, True] 2
         ''metrics.csv'' demo_world =
           (Inr (),
            wrote ''metrics.csv''
              (Csv metrics_names
                 [[PFloat 1, PFloat 1, PFloat 1, PNaN, PFloat (1 / 2), PFloat (3 / 4)]])
              demo_world)
   \<and> (\<exists>cm. save_confusion_matrix [True, False, True] [True, False, True]
               ''confusion_matrix.txt'' demo_world =
                  (Inr (), wrote ''confusion_matrix.txt'' (Matrix cm) demo_world)
                \<and> (\<forall>i < length cm. \<forall>j < length cm. i \<noteq> j \<longrightarrow> cm ! i ! j = 0))"
proof -
  have h1: "True \<in> set [True, False, True]" by simp
  have h2: "(0::real) \<le> 2" by simp
  have h3: "cohen_kappa_score demo_lib [True, False, True] [True, False, True] = Inr None"
    by (simp add: demo_lib_def)
  have h4: "balanced_accuracy_score demo_lib [True, False, True] [True, False, True] = Inr (Some (1 / 2))"
    by (simp add: demo_lib_def)
  have h5: "average_precision_score demo_lib [True, False, True] [True, False, True] = Inr (Some (3 / 4))"
    by (simp add: demo_lib_def)
  have h6: "writable demo_world ''metrics.csv''" by (simp add: demo_world_def)
  have h7: "writable demo_world ''confusion_matrix.txt''" by (simp add: demo_world_def)
  from perfect_prediction_metrics [OF h1 h2 h3 h4 h5 h6 h7] h1 h2 h3 h4 h5 h6 h7
  show ?thesis by simp
qed

text \<open>
  C7. For every binary input in which every prediction differs from the true label,
  \<open>compute_and_save_metrics\<close> writes precision \<open>0.0\<close> and recall \<open>0.0\<close> (and with
  them F-beta \<open>0.0\<close>).
\<close>

theorem all_wrong_metrics:
  assumes "length y_pred = length y_true"
    and "\<forall>i < length y_true. y_pred ! i \<noteq> y_true ! i"
    and "0 \<le> beta"
    and "cohen_kappa_score L y_true y_pred = Inr kappa"
    and "balanced_accuracy_score L y_true y_pred = Inr ba"
    and "average_precision_score L y_true y_pred = Inr ap"
    and "writable w save_path"
  shows "compute_and_save_metrics L y_true y_pred beta save_path w =
           (Inr (),
            wrote save_path
              (Csv metrics_names
                 [[PFloat 0, PFloat 0, PFloat 0, pfloat kappa, pfloat ba, pfloat ap]]) w)"
proof -
  have tp0: "tp y_true y_pred = 0" using assms(1,2) by (rule all_wrong_tp)
  have p: "precision_score y_true y_pred = Inr 0"
    using assms(1) by (simp add: precision_score_def tp0 prf_divide_def)
  have r: "recall_score y_true y_pred = Inr 0"
    using assms(1) by (simp add: recall_score_def tp0 prf_divide_def)
  have f: "fbeta_score y_true y_pred beta = Inr 0"
    using assms(1,3) by (simp add: fbeta_score_def tp0 prf_divide_def)
  show ?thesis using p r f assms(4-7) by (rule compute_and_save_metrics_row)
qed

theorem all_wrong_metrics_witness:
  "length [False, True, False] = length [True, False, True]
   \<and> (0::real) \<le> 2
   \<and> cohen_kappa_score demo_lib [True, False, True] [False, True, False] = Inr None
   \<and> balanced_accuracy_score demo_lib [True, False, True] [False, True, False] = Inr (Some (1 / 2))
   \<and> average_precision_score demo_lib [True, False, True] [False, True, False] = Inr (Some (3 / 4))
   \<and> writable demo_world ''metrics.csv''
   \<and> compute_and_save_metrics demo_lib [True, False, True] [False, True, False] 2
         ''metrics.csv'' demo_world =
           (Inr (),
            wrote ''metrics.csv''
              (Csv metrics_names
                 [[PFloat 0, PFloat 0, PFloat 0, PNaN, PFloat (1 / 2), PFloat (3 / 4)]])
              demo_world)"
proof -
  have h1: "length [False, True, False] = length [True, False, True]" by simp
  have h2: "\<forall>i < length [True, False, True]. [False, True, False] ! i \<noteq> [True, False, True] ! i"
    by (simp add: nth_Cons split: nat.split)
  have h3: "(0::real) \<le> 2" by simp
  have h4: "cohen_kappa_score demo_lib [True, False, True] [False, True, False] = Inr None"
    by (simp add: demo_lib_def)
  have h5: "balanced_accuracy_score demo_lib [True, False, True] [False, True, False] = Inr (Some (1 / 2))"
    by (simp add: demo_lib_def)
  have h6: "average_precision_score demo_lib [True, False, True] [False, True, False] = Inr (Some (3 / 4))"
    by (simp add: demo_lib_def)
  have h7: "writable demo_world ''metrics.csv''" by (simp add: demo_world_def)
  from all_wrong_metrics [OF h1 h2 h3 h4 h5 h6 h7] h1 h3 h4 h5 h6 h7
  show ?thesis by simp
qed

text \<open>
  C8. For every list of feature names with their importances, the table that
  \<open>calculate_and_save_feature_importances\<close> writes holds exactly the given
  (feature, importance) pairs, each as often as given, and its rows are in descending
  order of importance.
\<close>

theorem feature_importances_table_sorted:
  assumes "length feature_names = length (tree_feature_importances model)"
    and "writable w save_path"
  shows "\<exists>table. calculate_and_save_feature_importances model feature_names save_path w =
                (Inr (),
                 wrote save_path
                   (Csv [''Feature'', ''Importance'']
                      (map (\<lambda>r. [PStr (fst r), PFloat (snd r)]) table)) w)
              \<and> mset table = mset (zip feature_names (tree_feature_importances model))
              \<and> sorted_wrt (\<lambda>a b. snd b \<le> snd a) table"
proof -
  let ?table = "sort_key (\<lambda>r. - snd r) (zip feature_names (tree_feature_importances model))"
  have "calculate_and_save_feature_importances model feature_names save_path w =
                (Inr (),
                 wrote save_path
                   (Csv [''Feature'', ''Importance'']
                      (map (\<lambda>r. [PStr (fst r), PFloat (snd r)]) ?table)) w)"
    using assms
    by (simp add: calculate_and_save_feature_importances_def Let_def to_csv_def write_file_writable)
  moreover have "mset ?table = mset (zip feature_names (tree_feature_importances model))"
    by simp
  moreover have "sorted_wrt (\<lambda>a b. snd b \<le> snd a) ?table" by (rule sorted_desc)
  ultimately show ?thesis by blast
qed

theorem feature_importances_table_sorted_witness:
  "length [''torque'', ''tool_wear''] = length (tree_feature_importances demo_model)
   \<and> writable demo_world ''feature_importances.csv''
   \<and> (\<exists>table. calculate_and_save_feature_importances demo_model [''torque'', ''tool_wear'']
                  ''feature_importances.csv'' demo_world =
                (Inr (),
                 wrote ''feature_importances.csv''
                   (Csv [''Feature'', ''Importance'']
                      (map (\<lambda>r. [PStr (fst r), PFloat (snd r)]) table)) demo_world)
              \<and> mset table = mset (zip [''torque'', ''tool_wear''] (tree_feature_importances demo_model))
              \<and> sorted_wrt (\<lambda>a b. snd b \<le> snd a) table)"
proof -
  have h1: "length [''torque'', ''tool_wear''] = length (tree_feature_importances demo_model)"
    by (simp add: demo_model_def)
  have h2: "writable demo_world ''feature_importances.csv''" by (simp add: demo_world_def)
  from feature_importances_table_sorted [OF h1 h2] h1 h2 show ?thesis by blast
qed

text \<open>
  C9. For label vectors of equal length, the entries of the matrix written by
  \<open>save_confusion_matrix\<close> add up to the number of samples; when exactly two labels
  occur in the two vectors (binary labels, both classes occur), the matrix has two rows of
  two entries.
\<close>

theorem save_confusion_matrix_shape_and_total:
  fixes y_true :: "'a::linorder list"
  assumes "length y_true = length y_pred" and "writable w filename"
  shows "\<exists>cm. save_confusion_matrix y_true y_pred filename w =
              (Inr (), wrote filename (Matrix cm) w)
            \<and> sum_list (map sum_list cm) = length y_true
            \<and> (card (set y_true \<union> set y_pred) = 2 \<longrightarrow>
                 length cm = 2 \<and> (\<forall>row \<in> set cm. length row = 2))"
proof -
  let ?ls = "sort (remdups (y_true @ y_pred))"
  let ?cm = "map (\<lambda>t. map (\<lambda>p. count_list (zip y_true y_pred) (t, p)) ?ls) ?ls"
  have cm: "confusion_matrix y_true y_pred = Inr ?cm"
    using assms(1) by (simp add: confusion_matrix_def Let_def)
  have run: "save_confusion_matrix y_true y_pred filename w =
      (Inr (), wrote filename (Matrix ?cm) w)"
    using assms(2) by (simp add: save_confusion_matrix_def cm savetxt_def write_file_writable)
  have total: "sum_list (map sum_list ?cm) = length y_true"
    using assms(1) by (rule confusion_matrix_total)
  have shape: "card (set y_true \<union> set y_pred) = 2 \<longrightarrow>
      length ?cm = 2 \<and> (\<forall>row \<in> set ?cm. length row = 2)"
    using length_sorted_labels [of y_true y_pred] by auto
  from run total shape show ?thesis by blast
qed

theorem save_confusion_matrix_shape_and_total_witness:
  "length [True, False, True] = length [True, True, False]
   \<and> writable demo_world ''confusion_matrix.txt''
   \<and> card (set [True, False, True] \<union> set [True, True, False]) = 2
   \<and> (\<exists>cm. save_confusion_matrix [True, False, True] [True, True, False]
               ''confusion_matrix.txt'' demo_world =
              (Inr (), wrote ''confusion_matrix.txt'' (Matrix cm) demo_world)
            \<and> sum_list (map sum_list cm) = 3
            \<and> length cm = 2 \<and> (\<forall>row \<in> set cm. length row = 2))"
proof -
  have h1: "length [True, False, True] = length [True, True, False]" by simp
  have h2: "writable demo_world ''confusion_matrix.txt''" by (simp add: demo_world_def)
  have "set [True, False, True] \<union> set [True, True, False] = {True, False}" by auto
  then have h3: "card (set [True, False, True] \<union> set [True, True, False]) = 2" by simp
  from save_confusion_matrix_shape_and_total [OF h1 h2]
  obtain cm where
    run: "save_confusion_matrix [True, False, True] [True, True, False]
            ''confusion_matrix.txt'' demo_world =
          (Inr (), wrote ''confusion_matrix.txt'' (Matrix cm) demo_world)"
    and total: "sum_list (map sum_list cm) = length [True, False, True]"
    and shape: "card (set [True, False, True] \<union> set [True, True, False]) = 2 \<longrightarrow>
                 length cm = 2 \<and> (\<forall>row \<in> set cm. length row = 2)"
    by blast
  from total have "sum_list (map sum_list cm) = 3" by simp
  with run shape h1 h2 h3 show ?thesis by blast
qed

text \<open>
  C10. With a sampler that keeps to the ranges it is asked for, every candidate of every
  trial of the search lies in the fixed space: \<open>max_depth\<close> is an integer from 1 to 50,
  \<open>min_samples_split\<close> a float from 0.001 to 1, \<open>min_samples_leaf\<close> a float from
  0.001 to 0.5, \<open>class_weight\<close> is \<open>None\<close> or \<open>"balanced"\<close>, and these four
  are all the parameters of the trial. So the row saved to \<open>hyperparameters.csv\<close> has
  exactly these four fields, within these bounds.
\<close>

theorem candidates_in_search_space:
  assumes "\<forall>ts. respects_ranges (sampler L ts)"
  shows "(\<forall>s w1. optimize L (create_study Maximize) (\<lambda>t. objective L t X_train y_train beta) 100 w
                   = (Inr s, w1) \<longrightarrow>
            length (trials s) = 100 \<and>
            list_all (\<lambda>ft. in_search_space (ft_params ft) \<and>
                           dom (ft_params ft) = set hyperparameter_names) (trials s))
       \<and> (\<forall>w'. decision_tree_experiment L X_train y_train X_test y_test beta
                   experiment_dictionary model_directory experiment_number w = (Inr (), w') \<longrightarrow>
            (\<exists>k x y c.
               files w' (''results/'' @ experiment_dictionary @ ''/hyperparameters.csv'') =
                 Some (Csv hyperparameter_names [[PInt k, PFloat x, PFloat y, c]])
               \<and> 1 \<le> k \<and> k \<le> 50 \<and> 0.001 \<le> x \<and> x \<le> 1 \<and> 0.001 \<le> y \<and> y \<le> 0.5
               \<and> (c = PNone \<or> c = PStr ''balanced'')))"
proof (intro conjI allI impI)
  let ?G = "\<lambda>ft. in_search_space (ft_params ft) \<and> dom (ft_params ft) = set hyperparameter_names"
  have obj: "\<And>ts. io_spec (objective L (ask L ts) X_train y_train beta)
     (\<lambda>r evs. evs = [CrossValScore 5 (make_scorer FbetaScore beta)] \<and>
        (\<forall>a. r = Inr a \<longrightarrow> ?G \<lparr>ft_params = params (snd a), ft_value = fst a\<rparr>))"
    using assms spec_objective_space by blast
  {
    fix s w1
    assume run: "optimize L (create_study Maximize) (\<lambda>t. objective L t X_train y_train beta) 100 w
                   = (Inr s, w1)"
    from optimize_success [where G = ?G, OF obj _ run]
    show "length (trials s) = 100" and "list_all ?G (trials s)" by simp_all
  }
  fix w'
  assume run: "decision_tree_experiment L X_train y_train X_test y_test beta
                   experiment_dictionary model_directory experiment_number w = (Inr (), w')"
  from obj run obtain s b v1 v2 v3 v4 model y_pred c2 c3 c4 where
    all: "list_all ?G (trials s)" and best: "best_trial s = Inr b"
    and g: "getitem (ft_params b) ''max_depth'' = Inr v1"
      "getitem (ft_params b) ''min_samples_split'' = Inr v2"
      "getitem (ft_params b) ''min_samples_leaf'' = Inr v3"
      "getitem (ft_params b) ''class_weight'' = Inr v4"
    and w': "w' =
      wrote (''models/'' @ model_directory @ ''/'' @ experiment_number @ ''.joblib'') (Joblib model)
        (wrote (''results/'' @ experiment_dictionary @ ''/confusion_matrix.txt'') c4
          (wrote (''results/'' @ experiment_dictionary @ ''/feature_importances.csv'') c3
            (wrote (''results/'' @ experiment_dictionary @ ''/metrics.csv'') c2
              (wrote (''results/'' @ experiment_dictionary @ ''/hyperparameters.csv'')
                 (Csv [''max_depth'', ''min_samples_split'', ''min_samples_leaf'', ''class_weight'']
                    [[v1, v2, v3, v4]])
                 (w\<lparr>trace := trace w @ Optimize Maximize 100 #
                      replicate 100 (CrossValScore 5 (make_scorer FbetaScore beta)) @
                      [Printed ''Best trial recall: '' (ft_value b) (ft_params b)]\<rparr>)))))"
    by (rule experiment_success [where G = ?G])
  from best_trial_mem(1) [OF best] all have "in_search_space (ft_params b)"
    by (simp add: list_all_iff)
  from in_search_space_row [OF this g] obtain k x y where
    row: "v1 = PInt k" "v2 = PFloat x" "v3 = PFloat y"
    and bounds: "1 \<le> k" "k \<le> 50" "0.001 \<le> x" "x \<le> 1" "0.001 \<le> y" "y \<le> 0.5"
      "v4 = PNone \<or> v4 = PStr ''balanced''"
    by blast
  have "files w' (''results/'' @ experiment_dictionary @ ''/hyperparameters.csv'') =
      Some (Csv hyperparameter_names [[PInt k, PFloat x, PFloat y, v4]])"
    unfolding w' by (simp add: files_wrote row hyperparameter_names_def)
  with bounds show "\<exists>k x y c.
               files w' (''results/'' @ experiment_dictionary @ ''/hyperparameters.csv'') =
                 Some (Csv hyperparameter_names [[PInt k, PFloat x, PFloat y, c]])
               \<and> 1 \<le> k \<and> k \<le> 50 \<and> 0.001 \<le> x \<and> x \<le> 1 \<and> 0.001 \<le> y \<and> y \<le> 0.5
               \<and> (c = PNone \<or> c = PStr ''balanced'')"
    by blast
qed

theorem candidates_in_search_space_witness:
  "\<exists>w'. decision_tree_experiment demo_lib demo_frame demo_labels demo_frame demo_labels 2
          ''decision_tree_experiment1'' ''decision_tree'' ''1'' demo_world = (Inr (), w')
     \<and> (\<exists>k x y c.
          files w' ''results/decision_tree_experiment1/hyperparameters.csv'' =
            Some (Csv hyperparameter_names [[PInt k, PFloat x, PFloat y, c]])
          \<and> 1 \<le> k \<and> k \<le> 50 \<and> 0.001 \<le> x \<and> x \<le> 1 \<and> 0.001 \<le> y \<and> y \<le> 0.5
          \<and> (c = PNone \<or> c = PStr ''balanced''))"
proof -
  have contract: "\<forall>ts. respects_ranges (sampler demo_lib ts)"
    by (simp add: demo_lib_def demo_trial_low_respects)
  obtain w' where run: "decision_tree_experiment demo_lib demo_frame demo_labels
      demo_frame demo_labels 2 ''decision_tree_experiment1'' ''decision_tree'' ''1'' demo_world
        = (Inr (), w')"
    using demo_experiment [of demo_world demo_trial_low "''decision_tree_experiment1''"
        "''decision_tree''" "''1''"] demo_lib_low demo_world_writable by metis
  from candidates_in_search_space [OF contract, of demo_frame demo_labels 2 demo_world
      demo_frame demo_labels "''decision_tree_experiment1''" "''decision_tree''" "''1''"] run
  have "\<exists>k x y c.
          files w' (''results/'' @ ''decision_tree_experiment1'' @ ''/hyperparameters.csv'') =
            Some (Csv hyperparameter_names [[PInt k, PFloat x, PFloat y, c]])
          \<and> 1 \<le> k \<and> k \<le> 50 \<and> 0.001 \<le> x \<and> x \<le> 1 \<and> 0.001 \<le> y \<and> y \<le> 0.5
          \<and> (c = PNone \<or> c = PStr ''balanced'')"
    by blast
  with run show ?thesis by simp
qed

end
